theory Spec2Isabelle
  imports Complex_Main "HOL-Library.List_Lexorder" "HOL-Library.Char_ord"
begin

section \<open>Python strings and integers\<close>

text \<open>
  A Python \<open>str\<close> is modelled as a \<open>string\<close> whose characters are the code points
  0..255, so \<open>length\<close> and \<open>take\<close> count what Python's \<open>len\<close> and slicing count.
  Paths are POSIX paths.
\<close>

definition isspace :: "char \<Rightarrow> bool" where
  "isspace c = (c \<in> set [CHR 0x09, CHR 0x0A, CHR 0x0B, CHR 0x0C, CHR 0x0D,
                           CHR 0x1C, CHR 0x1D, CHR 0x1E, CHR 0x1F, CHR 0x20,
                           CHR 0x85, CHR 0xA0])"

text \<open>\<open>s.strip()\<close>: whitespace removed at both ends.\<close>

definition strip :: "string \<Rightarrow> string" where
  "strip s = rev (dropWhile isspace (rev (dropWhile isspace s)))"

text \<open>\<open>tag in root\<close> on two strings: \<open>tag\<close> occurs in \<open>root\<close> as a contiguous run.\<close>

fun starts_with :: "string \<Rightarrow> string \<Rightarrow> bool" where
  "starts_with [] s = True"
| "starts_with (t # ts) [] = False"
| "starts_with (t # ts) (c # cs) = (t = c \<and> starts_with ts cs)"

fun str_in :: "string \<Rightarrow> string \<Rightarrow> bool" where
  "str_in tag [] = (tag = [])"
| "str_in tag (c # cs) = (starts_with tag (c # cs) \<or> str_in tag cs)"

definition digit_char :: "nat \<Rightarrow> char" where
  "digit_char d = ''0123456789'' ! (d mod 10)"

fun str_nat :: "nat \<Rightarrow> string" where
  "str_nat n = (if n < 10 then [digit_char n] else str_nat (n div 10) @ [digit_char (n mod 10)])"

declare str_nat.simps [simp del]

text \<open>\<open>str(i)\<close> of an integer.\<close>

definition str_int :: "int \<Rightarrow> string" where
  "str_int i = (if i < 0 then CHR ''-'' # str_nat (nat (- i)) else str_nat (nat i))"

definition is_digit :: "char \<Rightarrow> bool" where
  "is_digit c = (c \<in> set ''0123456789'')"

definition digit_val :: "char \<Rightarrow> nat" where
  "digit_val c = of_char c - 48"

text \<open>
  The digits of an integer literal after its first digit: single underscores may
  separate digits, anything else is rejected.
\<close>

fun parse_digits :: "nat \<Rightarrow> string \<Rightarrow> nat option" where
  "parse_digits acc [] = Some acc"
| "parse_digits acc (c # cs) =
     (if c = CHR ''_'' then
        (case cs of
           [] \<Rightarrow> None
         | d # ds \<Rightarrow> if is_digit d then parse_digits (acc * 10 + digit_val d) ds else None)
      else if is_digit c then parse_digits (acc * 10 + digit_val c) cs
      else None)"

text \<open>
  The whitespace \<open>int\<close> accepts around a number: among the code points 0..255 these are
  tab, line feed, vertical tab, form feed, carriage return, space, U+0085 and U+00A0
  (not the separators U+001C..U+001F, which \<open>str.strip\<close> removes and \<open>int\<close> rejects).
\<close>

definition int_space :: "char \<Rightarrow> bool" where
  "int_space c = (c \<in> set [CHR 0x09, CHR 0x0A, CHR 0x0B, CHR 0x0C, CHR 0x0D, CHR 0x20,
                             CHR 0x85, CHR 0xA0])"

definition int_strip :: "string \<Rightarrow> string" where
  "int_strip s = rev (dropWhile int_space (rev (dropWhile int_space s)))"

text \<open>
  \<open>int(s)\<close> of a string in an interpreter without a limit on the number of digits:
  surrounding whitespace and one sign are accepted; \<open>None\<close> is \<open>ValueError\<close>.
\<close>

definition py_int :: "string \<Rightarrow> int option" where
  "py_int s =
     (let t = int_strip s;
          neg = (case t of [] \<Rightarrow> False | c # _ \<Rightarrow> c = CHR ''-'');
          body = (case t of [] \<Rightarrow> [] | c # r \<Rightarrow> if c = CHR ''-'' \<or> c = CHR ''+'' then r else t)
      in case body of
           [] \<Rightarrow> None
         | c # cs \<Rightarrow>
             if is_digit c
             then map_option (\<lambda>n. if neg then - int n else int n) (parse_digits (digit_val c) cs)
             else None)"

definition count_digits :: "string \<Rightarrow> nat" where
  "count_digits s = length (filter is_digit s)"

text \<open>
  \<open>int(s)\<close> in an interpreter whose \<open>sys.get_int_max_str_digits()\<close> is \<open>limit\<close> (4300
  unless configured otherwise; 0 switches the limit off, and so does an interpreter that
  has none): a string of more than 640 digits, and more digits than the limit, is a
  \<open>ValueError\<close> too. Underscores do not count as digits, leading zeros do.
\<close>

definition py_int_max :: "nat \<Rightarrow> string \<Rightarrow> int option" where
  "py_int_max limit s =
     (if 640 < count_digits s \<and> 0 < limit \<and> limit < count_digits s then None else py_int s)"

text \<open>\<open>os.path.join(a, b)\<close> for a relative \<open>b\<close>.\<close>

definition join :: "string \<Rightarrow> string \<Rightarrow> string" where
  "join a b = (if a = [] then b else if last a = CHR ''/'' then a @ b else a @ ''/'' @ b)"

section \<open>Values decoded from JSON\<close>

datatype pyfloat = Finite real | PosInf | NegInf | NaN

datatype json =
    JNull
  | JBool bool
  | JInt int
  | JFloat pyfloat
  | JStr string
  | JArr "json list"
  | JObj "(string \<times> json) list"

text \<open>\<open>bool(v)\<close>.\<close>

fun truthy :: "json \<Rightarrow> bool" where
  "truthy JNull = False"
| "truthy (JBool b) = b"
| "truthy (JInt i) = (i \<noteq> 0)"
| "truthy (JFloat f) = (f \<noteq> Finite 0)"
| "truthy (JStr s) = (s \<noteq> [])"
| "truthy (JArr xs) = (xs \<noteq> [])"
| "truthy (JObj kvs) = (kvs \<noteq> [])"

datatype exc_kind =
    AttributeError
  | TypeError
  | ValueError
  | KeyError
  | ImportError
  | JSONDecodeError
  | RecursionError
  | UnicodeDecodeError
  | OSError
  | ZeroDivisionError
  | OtherException
  | SystemExit
  | KeyboardInterrupt

text \<open>\<open>isinstance(e, Exception)\<close>: what \<open>except Exception\<close> catches.\<close>

fun is_Exception :: "exc_kind \<Rightarrow> bool" where
  "is_Exception SystemExit = False"
| "is_Exception KeyboardInterrupt = False"
| "is_Exception _ = True"

text \<open>\<open>data.get(key, default)\<close>: only a dict has \<open>get\<close>.\<close>

definition dict_get :: "json \<Rightarrow> string \<Rightarrow> json \<Rightarrow> exc_kind + json" where
  "dict_get d k dflt =
     (case d of
        JObj kvs \<Rightarrow> Inr (case map_of kvs k of Some v \<Rightarrow> v | None \<Rightarrow> dflt)
      | _ \<Rightarrow> Inl AttributeError)"

text \<open>
  \<open>v += text\<close> for a string \<open>text\<close>: concatenation on a string, \<open>extend\<close> by the
  characters on a list, \<open>TypeError\<close> on everything else.
\<close>

definition iadd_str :: "json \<Rightarrow> string \<Rightarrow> exc_kind + json" where
  "iadd_str v t =
     (case v of
        JStr s \<Rightarrow> Inr (JStr (s @ t))
      | JArr xs \<Rightarrow> Inr (JArr (xs @ map (\<lambda>c. JStr [c]) t))
      | _ \<Rightarrow> Inl TypeError)"

text \<open>\<open>v[:n]\<close> is defined on strings and lists only.\<close>

fun sliceable :: "json \<Rightarrow> bool" where
  "sliceable (JStr s) = True"
| "sliceable (JArr xs) = True"
| "sliceable _ = False"

section \<open>The environment of the grading driver\<close>

datatype proc_result =
    Completed string string int
  | TimeoutExpired
  | RunRaised exc_kind

text \<open>
  What the driver takes from outside the repository: \<open>json.loads\<close>, the text of a
  decoded value inside an f-string, \<open>subprocess.run\<close> (the number of children launched
  so far and the command line give the outcome of the child) and \<open>Path.resolve\<close>.
\<close>

record env =
  json_loads :: "string \<Rightarrow> exc_kind + json"
  py_str :: "json \<Rightarrow> string"
  subprocess_run :: "nat \<Rightarrow> string list \<Rightarrow> proc_result"
  resolve :: "string \<Rightarrow> string"

datatype assignment = PA3 | PA4

fun target :: "assignment \<Rightarrow> string" where
  "target PA3 = ''pa3.py''"
| "target PA4 = ''pa4.py''"

record config =
  grader :: assignment
  python_bin :: string
  runner_path :: string
  tests_dir :: string
  support_arg :: string
  timeout_text :: string

record test_file =
  tname :: string
  tpath :: string

record student_summary =
  total :: int
  passed :: int
  failed :: int
  missing :: int

record result_row =
  row_student :: string
  row_test :: string
  row_passed :: int
  row_message :: json

text \<open>
  The state the driver's \<open>main\<close> mutates: the \<open>summary\<close> dict (in insertion order),
  the data rows written to the results file so far, and the command lines given to
  \<open>subprocess.run\<close> so far. A step of \<open>main\<close> gives the new state, or the exception
  that leaves \<open>main\<close> together with the state reached when it was raised.
\<close>

record state =
  summary :: "(string \<times> student_summary) list"
  results :: "result_row list"
  launched :: "string list list"

definition ebind :: "'e + 'a \<Rightarrow> ('a \<Rightarrow> 'e + 'b) \<Rightarrow> 'e + 'b" where
  "ebind m f = (case m of Inl e \<Rightarrow> Inl e | Inr x \<Rightarrow> f x)"

text \<open>An exception raised by an expression that does not change the state.\<close>

definition raised_in :: "state \<Rightarrow> exc_kind + 'a \<Rightarrow> exc_kind \<times> state + 'a" where
  "raised_in st m = (case m of Inl e \<Rightarrow> Inl (e, st) | Inr x \<Rightarrow> Inr x)"

text \<open>The state \<open>main\<close> leaves behind, whether it returned or raised.\<close>

definition final_state :: "exc_kind \<times> state + state \<Rightarrow> state" where
  "final_state r = (case r of Inl (e, st) \<Rightarrow> st | Inr st \<Rightarrow> st)"

section \<open>The submission locator\<close>

datatype fsnode = File string | Dir string "fsnode list" | DirLink string

fun node_name :: "fsnode \<Rightarrow> string" where
  "node_name (File n) = n"
| "node_name (Dir n sub) = n"
| "node_name (DirLink n) = n"

fun is_dir :: "fsnode \<Rightarrow> bool" where
  "is_dir (File n) = False"
| "is_dir (Dir n sub) = True"
| "is_dir (DirLink n) = True"

definition dirnames :: "fsnode list \<Rightarrow> string list" where
  "dirnames entries = map node_name (filter is_dir entries)"

definition filenames :: "fsnode list \<Rightarrow> string list" where
  "filenames entries = map node_name (filter (\<lambda>e. \<not> is_dir e) entries)"

text \<open>
  \<open>os.walk(top)\<close>, top-down: the triple of a directory, then the walks of its
  subdirectories in listing order; a link to a directory is listed and not entered.
\<close>

fun walk_node :: "string \<Rightarrow> fsnode \<Rightarrow> (string \<times> string list \<times> string list) list" where
  "walk_node parent (Dir n sub) =
     (join parent n, dirnames sub, filenames sub) # concat (map (walk_node (join parent n)) sub)"
| "walk_node parent (File n) = []"
| "walk_node parent (DirLink n) = []"

definition walk :: "string \<Rightarrow> fsnode list \<Rightarrow> (string \<times> string list \<times> string list) list" where
  "walk topdir entries =
     (topdir, dirnames entries, filenames entries) # concat (map (walk_node topdir) entries)"

definition tags :: "string list" where
  "tags = [''.venv'', ''venv'', ''__pycache__'']"

definition skipped :: "string \<Rightarrow> bool" where
  "skipped rootdir = list_ex (\<lambda>tag. str_in tag rootdir) tags"

text \<open>The \<open>for root, dirs, files in os.walk(student_dir)\<close> loop of \<open>main\<close>.\<close>

fun scan :: "string \<Rightarrow> (string \<times> string list \<times> string list) list \<Rightarrow> string option" where
  "scan tgt [] = None"
| "scan tgt ((rootdir, dirs, files) # rest) =
     (if skipped rootdir then scan tgt rest
      else if tgt \<in> set files then Some (join rootdir tgt)
      else scan tgt rest)"

text \<open>
  Locating the student's module: \<open>student_dir\<close> is the path of the student's directory
  and \<open>entries\<close> its content.
\<close>

definition locate :: "assignment \<Rightarrow> string \<Rightarrow> fsnode list \<Rightarrow> string option" where
  "locate a student_dir entries =
     (if target a \<in> set (map node_name entries) then Some (join student_dir (target a))
      else scan (target a) (walk student_dir entries))"

section \<open>The grading loop\<close>

definition new_summary :: student_summary where
  "new_summary = \<lparr>total = 0, passed = 0, failed = 0, missing = 0\<rparr>"

text \<open>\<open>summary.setdefault(student, {...})\<close>.\<close>

definition setdefault :: "string \<Rightarrow> student_summary \<Rightarrow> (string \<times> student_summary) list
    \<Rightarrow> (string \<times> student_summary) list" where
  "setdefault k v d = (if k \<in> set (map fst d) then d else d @ [(k, v)])"

text \<open>\<open>summary[student][field] = ...\<close>: a \<open>KeyError\<close> when the student has no entry.\<close>

fun modify :: "string \<Rightarrow> (student_summary \<Rightarrow> student_summary) \<Rightarrow> (string \<times> student_summary) list
    \<Rightarrow> (string \<times> student_summary) list option" where
  "modify k f [] = None"
| "modify k f ((k', v) # d) =
     (if k' = k then Some ((k', f v) # d) else map_option ((#) (k', v)) (modify k f d))"

definition update_summary :: "string \<Rightarrow> (student_summary \<Rightarrow> student_summary) \<Rightarrow> state
    \<Rightarrow> exc_kind \<times> state + state" where
  "update_summary student f st =
     (case modify student f (summary st) of
        None \<Rightarrow> Inl (KeyError, st)
      | Some d \<Rightarrow> Inr (st\<lparr>summary := d\<rparr>))"

definition writerow :: "result_row \<Rightarrow> state \<Rightarrow> state" where
  "writerow r st = st\<lparr>results := results st @ [r]\<rparr>"

definition not_found_message :: "assignment \<Rightarrow> string" where
  "not_found_message a = target a @ '' not found''"

text \<open>The loop of \<open>main\<close> for a student whose module was not found.\<close>

fun missing_rows :: "assignment \<Rightarrow> string \<Rightarrow> test_file list \<Rightarrow> state \<Rightarrow> exc_kind \<times> state + state" where
  "missing_rows a student [] st = Inr st"
| "missing_rows a student (t # ts) st =
     ebind (update_summary student (\<lambda>s. s\<lparr>total := total s + 1\<rparr>)
              (writerow \<lparr>row_student = student, row_test = tname t, row_passed = 0,
                         row_message = JStr (not_found_message a)\<rparr> st))
       (\<lambda>st1. ebind (update_summary student (\<lambda>s. s\<lparr>failed := failed s + 1\<rparr>) st1)
          (missing_rows a student ts))"

text \<open>
  The text an f-string puts for a decoded value: a string as it is, anything else by
  \<open>str\<close>, which the environment gives.
\<close>

definition fmt :: "env \<Rightarrow> json \<Rightarrow> string" where
  "fmt E v = (case v of JStr s \<Rightarrow> s | _ \<Rightarrow> py_str E v)"

text \<open>
  Decoding the child's output: empty output is the empty dict, a \<open>JSONDecodeError\<close>
  is replaced by a failing value, any other exception of \<open>json.loads\<close> propagates.
\<close>

definition parse_output :: "env \<Rightarrow> string \<Rightarrow> string \<Rightarrow> exc_kind + json" where
  "parse_output E out err =
     (if out = [] then Inr (JObj [])
      else case json_loads E out of
             Inr data \<Rightarrow> Inr data
           | Inl JSONDecodeError \<Rightarrow>
               Inr (JObj [(''ok'', JBool False),
                          (''message'', JStr ''Invalid JSON output''),
                          (''error'', JStr (''STDOUT: '' @ take 500 out @ ''\<newline>STDERR: '' @ take 500 err))])
           | Inl e \<Rightarrow> Inl e)"

text \<open>The message cell of the row, built from \<open>message\<close>, \<open>error\<close>, the exit code and \<open>err\<close>.\<close>

definition build_message :: "env \<Rightarrow> json \<Rightarrow> json \<Rightarrow> int \<Rightarrow> string \<Rightarrow> exc_kind + json" where
  "build_message E message error returncode err =
     ebind (if truthy error then iadd_str message (''\<newline>\<newline>ERROR:\<newline>'' @ fmt E error) else Inr message)
       (\<lambda>m1. ebind (if returncode \<noteq> 0
                      then iadd_str m1 (''\<newline>\<newline>(subprocess exit code: '' @ str_int returncode @ '')'')
                      else Inr m1)
          (\<lambda>m2. if err \<noteq> [] \<and> \<not> truthy error
                 then iadd_str m2 (''\<newline>\<newline>STDERR:\<newline>'' @ err)
                 else Inr m2))"

text \<open>
  Logging is modelled by the exceptions it can raise only (writing to the console and
  to the files is taken to succeed). \<open>log_traceback\<close> slices \<open>message\<close> and splits a
  truthy \<open>error\<close>; the short form slices \<open>message\<close>. (Slicing a dict is a \<open>TypeError\<close>,
  or a \<open>KeyError\<close> in interpreters whose slices are hashable; the model says \<open>TypeError\<close>.)
\<close>

definition log_traceback :: "json \<Rightarrow> json \<Rightarrow> exc_kind option" where
  "log_traceback message error =
     (if \<not> sliceable message then Some TypeError
      else if truthy error \<and> (case error of JStr s \<Rightarrow> False | _ \<Rightarrow> True) then Some AttributeError
      else None)"

definition log_short :: "json \<Rightarrow> exc_kind option" where
  "log_short message = (if sliceable message then None else Some TypeError)"

definition rsa_tests :: "string list" where
  "rsa_tests = [''test_3_1.py'', ''test_3_2.py'', ''test_4_1.py'', ''test_4_2.py'']"

definition log_failure :: "assignment \<Rightarrow> string \<Rightarrow> json \<Rightarrow> json \<Rightarrow> string \<Rightarrow> exc_kind option" where
  "log_failure a name message error err =
     (case a of
        PA3 \<Rightarrow> if name \<in> set rsa_tests then log_traceback message error else log_short message
      | PA4 \<Rightarrow> if truthy error \<or> err \<noteq> [] then log_traceback message error else log_short message)"

definition base_seed :: int where
  "base_seed = 1337"

definition command :: "env \<Rightarrow> config \<Rightarrow> string \<Rightarrow> test_file \<Rightarrow> int \<Rightarrow> string list" where
  "command E cfg module_path t seed =
     [python_bin cfg, runner_path cfg, resolve E module_path, tests_dir cfg, support_arg cfg,
      tpath t, str_int seed]"

text \<open>The part of the loop body after a child that completed.\<close>

definition record_completed :: "env \<Rightarrow> assignment \<Rightarrow> string \<Rightarrow> string \<Rightarrow> string \<Rightarrow> string \<Rightarrow> int
    \<Rightarrow> state \<Rightarrow> exc_kind \<times> state + state" where
  "record_completed E a student name stdout stderr returncode st =
     (let out = strip stdout; err = strip stderr in
      ebind (raised_in st (parse_output E out err)) (\<lambda>data.
      ebind (raised_in st (dict_get data ''ok'' (JBool False))) (\<lambda>okv.
      ebind (raised_in st (dict_get data ''message'' (JStr []))) (\<lambda>message.
      ebind (raised_in st (dict_get data ''error'' (JStr []))) (\<lambda>error.
      ebind (raised_in st (build_message E message error returncode err)) (\<lambda>full_message.
      ebind (update_summary student (\<lambda>s. s\<lparr>total := total s + 1\<rparr>)
               (writerow \<lparr>row_student = student, row_test = name,
                          row_passed = (if truthy okv then 1 else 0),
                          row_message = full_message\<rparr> st)) (\<lambda>st1.
      if truthy okv then update_summary student (\<lambda>s. s\<lparr>passed := passed s + 1\<rparr>) st1
      else ebind (update_summary student (\<lambda>s. s\<lparr>failed := failed s + 1\<rparr>) st1) (\<lambda>st2.
             case log_failure a name message error err of
               Some e \<Rightarrow> Inl (e, st2)
             | None \<Rightarrow> Inr st2))))))))"

definition timeout_message :: "config \<Rightarrow> string" where
  "timeout_message cfg = ''Test timed out after '' @ timeout_text cfg @ '' seconds''"

definition record_timeout :: "config \<Rightarrow> string \<Rightarrow> string \<Rightarrow> state \<Rightarrow> exc_kind \<times> state + state" where
  "record_timeout cfg student name st =
     ebind (update_summary student (\<lambda>s. s\<lparr>total := total s + 1\<rparr>)
              (writerow \<lparr>row_student = student, row_test = name, row_passed = 0,
                         row_message = JStr (timeout_message cfg)\<rparr> st))
       (update_summary student (\<lambda>s. s\<lparr>failed := failed s + 1\<rparr>))"

text \<open>The body of \<open>for idx, tfile in enumerate(tests)\<close>.\<close>

definition run_test :: "env \<Rightarrow> config \<Rightarrow> string \<Rightarrow> string \<Rightarrow> nat \<Rightarrow> test_file \<Rightarrow> state
    \<Rightarrow> exc_kind \<times> state + state" where
  "run_test E cfg student module_path idx t st =
     (let seed = base_seed + int idx;
          cmd = command E cfg module_path t seed;
          st1 = st\<lparr>launched := launched st @ [cmd]\<rparr>
      in case subprocess_run E (length (launched st)) cmd of
           Completed stdout stderr returncode \<Rightarrow>
             record_completed E (grader cfg) student (tname t) stdout stderr returncode st1
         | TimeoutExpired \<Rightarrow> record_timeout cfg student (tname t) st1
         | RunRaised e \<Rightarrow> Inl (e, st1))"

fun run_tests :: "env \<Rightarrow> config \<Rightarrow> string \<Rightarrow> string \<Rightarrow> nat \<Rightarrow> test_file list \<Rightarrow> state
    \<Rightarrow> exc_kind \<times> state + state" where
  "run_tests E cfg student module_path idx [] st = Inr st"
| "run_tests E cfg student module_path idx (t # ts) st =
     ebind (run_test E cfg student module_path idx t st)
       (run_tests E cfg student module_path (Suc idx) ts)"

text \<open>
  The body of \<open>for student_dir in sorted(...)\<close>: a student directory is its name and
  its content, \<open>rootdir\<close> is the path of the submissions directory.
\<close>

definition grade_student :: "env \<Rightarrow> config \<Rightarrow> string \<Rightarrow> test_file list \<Rightarrow> string \<times> fsnode list
    \<Rightarrow> state \<Rightarrow> exc_kind \<times> state + state" where
  "grade_student E cfg rootdir tests sd st =
     (let student = fst sd;
          st0 = st\<lparr>summary := setdefault student new_summary (summary st)\<rparr>
      in case locate (grader cfg) (join rootdir student) (snd sd) of
           None \<Rightarrow>
             ebind (missing_rows (grader cfg) student tests st0)
               (update_summary student (\<lambda>s. s\<lparr>missing := 1\<rparr>))
         | Some module_path \<Rightarrow> run_tests E cfg student module_path 0 tests st0)"

fun grade_students :: "env \<Rightarrow> config \<Rightarrow> string \<Rightarrow> test_file list \<Rightarrow> (string \<times> fsnode list) list
    \<Rightarrow> state \<Rightarrow> exc_kind \<times> state + state" where
  "grade_students E cfg rootdir tests [] st = Inr st"
| "grade_students E cfg rootdir tests (sd # sds) st =
     ebind (grade_student E cfg rootdir tests sd st) (grade_students E cfg rootdir tests sds)"

definition initial_state :: state where
  "initial_state = \<lparr>summary = [], results = [], launched = []\<rparr>"

text \<open>The grading part of \<open>main\<close>, after the set-up checks.\<close>

definition grade :: "env \<Rightarrow> config \<Rightarrow> string \<Rightarrow> test_file list \<Rightarrow> (string \<times> fsnode list) list
    \<Rightarrow> exc_kind \<times> state + state" where
  "grade E cfg rootdir tests students = grade_students E cfg rootdir tests students initial_state"

section \<open>The summary writer\<close>

definition py_div :: "real \<Rightarrow> real \<Rightarrow> exc_kind + real" where
  "py_div a b = (if b = 0 then Inl ZeroDivisionError else Inr (a / b))"

text \<open>\<open>pct = (passed / total * 100.0) if total else 0.0\<close>, over the reals.\<close>

definition percent_passed :: "student_summary \<Rightarrow> exc_kind + real" where
  "percent_passed s =
     (if total s \<noteq> 0
      then ebind (py_div (real_of_int (passed s)) (real_of_int (total s))) (\<lambda>q. Inr (q * 100))
      else Inr 0)"

record summary_row =
  sum_student :: string
  sum_total :: int
  sum_passed :: int
  sum_failed :: int
  sum_percent :: real
  sum_missing :: int

fun write_summary :: "(string \<times> student_summary) list \<Rightarrow> exc_kind + summary_row list" where
  "write_summary [] = Inr []"
| "write_summary ((student, s) # rest) =
     ebind (percent_passed s) (\<lambda>pct.
     ebind (write_summary rest) (\<lambda>rows.
       Inr (\<lparr>sum_student = student, sum_total = total s, sum_passed = passed s,
             sum_failed = failed s, sum_percent = pct, sum_missing = missing s\<rparr> # rows)))"

text \<open>\<open>for student, s in sorted(summary.items())\<close>: the keys are distinct.\<close>

definition summary_rows :: "state \<Rightarrow> exc_kind + summary_row list" where
  "summary_rows st = write_summary (sort_key fst (summary st))"

section \<open>The sandboxed runner\<close>

text \<open>
  What a call into loaded code does to the runner's control flow: it returns a value,
  it raises, or it never returns to the runner (it hangs or ends the process).
\<close>

datatype 'a outcome = Returns 'a | Raises exc_kind string | NoReturn

text \<open>
  Loaded code runs inside the runner's interpreter, so it can also change what the
  runner's later statements do. \<open>channel\<close> is what \<open>print(json.dumps(v))\<close> in the runner
  does: \<open>Intact\<close>, the JSON text of \<open>v\<close> and a newline reach the standard output of the
  process; \<open>Replaced f\<close>, the statement returns and the text \<open>f v\<close> reaches the standard
  output instead (none for \<open>[]\<close>: \<open>sys.stdout\<close>, \<open>print\<close> or \<open>json.dumps\<close> has been
  rebound); \<open>Broken k\<close>, the statement raises \<open>k\<close> (\<open>ValueError\<close> for a closed \<open>sys.stdout\<close>).
  \<open>seed_fault\<close> is the exception \<open>random.seed(seed)\<close> raises, if it has been made to raise.
\<close>

datatype channel = Intact | Replaced "json \<Rightarrow> string" | Broken exc_kind

record machinery =
  stdout_channel :: channel
  seed_fault :: "exc_kind option"

text \<open>The interpreter before any loaded code has run.\<close>

definition untouched :: machinery where
  "untouched = \<lparr>stdout_channel = Intact, seed_fault = None\<rparr>"

text \<open>
  A call into loaded code: its outcome, the text the loaded code itself wrote to the
  standard output of the process meanwhile, and the machinery it leaves behind (\<open>None\<close>:
  as it found it).
\<close>

record 'a effect =
  outcome :: "'a outcome"
  wrote :: string
  leaves :: "machinery option"

definition after_call :: "machinery \<Rightarrow> 'a effect \<Rightarrow> machinery" where
  "after_call m e = (case leaves e of None \<Rightarrow> m | Some m' \<Rightarrow> m')"

text \<open>
  A loaded test module: \<open>TestCase\<close> is \<open>None\<close> when the module has no such attribute;
  otherwise it gives, for the seed in effect, what
  \<open>result, msg = test_mod.TestCase(); ok = bool(result); msg = str(msg)\<close> does.
\<close>

record pymodule =
  TestCase :: "(int \<Rightarrow> (bool \<times> string) effect) option"

text \<open>
  The runner's environment: \<open>os.path.exists\<close>, whether \<open>spec_from_file_location\<close> gives
  a spec with a loader, what executing a module file does, \<open>traceback.format_exc()\<close> for
  an exception of a kind and text, \<open>Path(p).stem\<close>, and the interpreter's
  \<open>sys.get_int_max_str_digits()\<close>.
\<close>

record renv =
  path_exists :: "string \<Rightarrow> bool"
  has_spec :: "string \<Rightarrow> string \<Rightarrow> bool"
  exec_module :: "string \<Rightarrow> string \<Rightarrow> pymodule effect"
  format_exc :: "exc_kind \<Rightarrow> string \<Rightarrow> string"
  stem :: "string \<Rightarrow> string"
  int_max_str_digits :: nat

text \<open>
  What happens in a run, in order: \<open>Print v\<close>, the JSON text of \<open>v\<close> and a newline reach
  the standard output, from a \<open>print\<close> of the runner; \<open>Wrote s\<close>, the text \<open>s\<close> reaches the
  standard output otherwise (loaded code wrote it, or a replaced \<open>print\<close> did);
  \<open>SysPathInsert d\<close>, \<open>sys.path.insert(0, d)\<close>; \<open>RandomSeed s\<close>, the runner's call
  \<open>random.seed(s)\<close> returned; \<open>Invoke\<close>, \<open>test_mod.TestCase()\<close> is called.
\<close>

datatype event =
    Print json
  | Wrote string
  | SysPathInsert string
  | RandomSeed int
  | Invoke

datatype status = Returned | Uncaught exc_kind | Hung

definition written :: "string \<Rightarrow> event list" where
  "written s = (if s = [] then [] else [Wrote s])"

definition load_module_from_path :: "renv \<Rightarrow> string \<Rightarrow> string \<Rightarrow> pymodule effect" where
  "load_module_from_path R module_name file_path =
     (let wrap = (\<lambda>k msg. Raises ImportError
                    (''Error loading '' @ module_name @ '' from '' @ file_path @ '': '' @ msg
                      @ ''\<newline>'' @ format_exc R k msg))
      in if \<not> has_spec R module_name file_path
         then \<lparr>outcome = wrap ImportError (''Cannot create spec for '' @ module_name @ '' from '' @ file_path),
               wrote = [], leaves = None\<rparr>
         else let e = exec_module R module_name file_path
              in e\<lparr>outcome := (case outcome e of
                                  Returns m \<Rightarrow> Returns m
                                | Raises k msg \<Rightarrow> if is_Exception k then wrap k msg else Raises k msg
                                | NoReturn \<Rightarrow> NoReturn)\<rparr>)"

definition failure :: "string \<Rightarrow> string \<Rightarrow> json" where
  "failure message error = JObj [(''ok'', JBool False), (''message'', JStr message), (''error'', JStr error)]"

text \<open>The name the student's module is registered under.\<close>

fun student_module :: "assignment \<Rightarrow> string" where
  "student_module PA3 = ''pa3''"
| "student_module PA4 = ''pa4''"

text \<open>
  \<open>print(json.dumps(v))\<close> as the last statement of a path through \<open>main\<close>, once loaded
  code has run.
\<close>

definition emit :: "machinery \<Rightarrow> json \<Rightarrow> event list \<times> status" where
  "emit m v =
     (case stdout_channel m of
        Intact \<Rightarrow> ([Print v], Returned)
      | Replaced f \<Rightarrow> (written (f v), Returned)
      | Broken k \<Rightarrow> ([], Uncaught k))"

definition after :: "event list \<Rightarrow> event list \<times> status \<Rightarrow> event list \<times> status" where
  "after evs r = (evs @ fst r, snd r)"

text \<open>
  The \<open>try\<close> block that runs the test, after \<open>random.seed(seed)\<close>; \<open>m\<close> is the machinery
  the two loaded modules left. (A \<open>print\<close> that raises inside the \<open>try\<close> block is handled
  by the \<open>except\<close> branch when its exception derives from \<open>Exception\<close>, and the \<open>print\<close>
  there raises it again: either way it leaves \<open>main\<close> with nothing printed, as \<open>emit\<close>
  has it.)
\<close>

definition run_TestCase :: "renv \<Rightarrow> machinery \<Rightarrow> int \<Rightarrow> pymodule \<Rightarrow> event list \<times> status" where
  "run_TestCase R m seed test_mod =
     (case TestCase test_mod of
        None \<Rightarrow>
          emit m (failure ''Exception during TestCase() execution''
                    (format_exc R AttributeError ''TestCase() function not found in test file''))
      | Some f \<Rightarrow>
          (let e = f seed; m' = after_call m e
           in after (Invoke # written (wrote e))
                (case outcome e of
                   Returns (ok, msg) \<Rightarrow> emit m' (JObj [(''ok'', JBool ok), (''message'', JStr msg)])
                 | Raises k text \<Rightarrow>
                     if is_Exception k
                     then emit m' (failure ''Exception during TestCase() execution'' (format_exc R k text))
                     else ([], Uncaught k)
                 | NoReturn \<Rightarrow> ([], Hung))))"

text \<open>\<open>main\<close> of the runner; \<open>argv\<close> is \<open>sys.argv\<close>.\<close>

definition runner_main :: "assignment \<Rightarrow> renv \<Rightarrow> string list \<Rightarrow> event list \<times> status" where
  "runner_main a R argv =
     (if length argv < 6 then ([Print (failure ''bad_args'' ''Expected 5 arguments'')], Returned)
      else
        let student_path = argv ! 1;
            tests_dir = argv ! 2;
            support_dir = argv ! 3;
            test_file_path = argv ! 4
        in case py_int_max (int_max_str_digits R) (argv ! 5) of
             None \<Rightarrow> ([], Uncaught ValueError)
           | Some seed \<Rightarrow>
               if \<not> path_exists R student_path
               then ([Print (failure (''Student '' @ target a @ '' not found'')
                               (''Path does not exist: '' @ student_path))], Returned)
               else if \<not> path_exists R test_file_path
               then ([Print (failure ''Test file not found''
                               (''Path does not exist: '' @ test_file_path))], Returned)
               else
                 after ((if tests_dir \<noteq> [] \<and> path_exists R tests_dir then [SysPathInsert tests_dir] else [])
                        @ (if support_dir \<noteq> [] \<and> path_exists R support_dir
                           then [SysPathInsert support_dir] else []))
                   (let s = load_module_from_path R (student_module a) student_path;
                        m1 = after_call untouched s
                    in after (written (wrote s))
                         (case outcome s of
                            Raises k text \<Rightarrow>
                              if is_Exception k
                              then emit m1 (failure (''Failed to load student's '' @ target a)
                                              (format_exc R k text))
                              else ([], Uncaught k)
                          | NoReturn \<Rightarrow> ([], Hung)
                          | Returns student_mod \<Rightarrow>
                              (let t = load_module_from_path R (stem R test_file_path) test_file_path;
                                   m2 = after_call m1 t
                               in after (written (wrote t))
                                    (case outcome t of
                                       Raises k text \<Rightarrow>
                                         if is_Exception k
                                         then emit m2 (failure ''Failed to load test file''
                                                         (format_exc R k text))
                                         else ([], Uncaught k)
                                     | NoReturn \<Rightarrow> ([], Hung)
                                     | Returns test_mod \<Rightarrow>
                                         (case seed_fault m2 of
                                            Some k \<Rightarrow> ([], Uncaught k)
                                          | None \<Rightarrow>
                                              after [RandomSeed seed]
                                                (run_TestCase R m2 seed test_mod)))))))"

text \<open>The values the runner's \<open>print\<close> put on the standard output.\<close>

fun printed :: "event list \<Rightarrow> json list" where
  "printed [] = []"
| "printed (Print v # evs) = v # printed evs"
| "printed (e # evs) = printed evs"

section \<open>Predicates and example inputs used in the statements\<close>


text \<open>Machinery on which the runner's \<open>print\<close> and \<open>random.seed\<close> work as at the start.\<close>

definition intact :: "machinery \<Rightarrow> bool" where
  "intact m \<longleftrightarrow> stdout_channel m = Intact \<and> seed_fault m = None"


text \<open>What reached the standard output in a run, in order.\<close>

fun to_stdout :: "event \<Rightarrow> bool" where
  "to_stdout (Print v) = True"
| "to_stdout (Wrote s) = True"
| "to_stdout e = False"

definition on_stdout :: "event list \<Rightarrow> event list" where
  "on_stdout evs = filter to_stdout evs"

text \<open>
  A value of the result protocol, as the specification describes it: a dict with a
  boolean \<open>ok\<close>, a string \<open>message\<close>, optionally a string \<open>error\<close> or \<open>detail\<close>, and no other
  key.
\<close>

fun is_bool :: "json \<Rightarrow> bool" where
  "is_bool (JBool b) = True"
| "is_bool v = False"

fun is_str :: "json \<Rightarrow> bool" where
  "is_str (JStr s) = True"
| "is_str v = False"

fun result_protocol :: "json \<Rightarrow> bool" where
  "result_protocol (JObj kvs) =
     (distinct (map fst kvs)
      \<and> list_all (\<lambda>k. k \<in> set [''ok'', ''message'', ''error'', ''detail'']) (map fst kvs)
      \<and> (case map_of kvs ''ok'' of Some v \<Rightarrow> is_bool v | None \<Rightarrow> False)
      \<and> (case map_of kvs ''message'' of Some v \<Rightarrow> is_str v | None \<Rightarrow> False)
      \<and> (case map_of kvs ''error'' of Some v \<Rightarrow> is_str v | None \<Rightarrow> True)
      \<and> (case map_of kvs ''detail'' of Some v \<Rightarrow> is_str v | None \<Rightarrow> True))"
| "result_protocol v = False"

fun is_dict :: "json \<Rightarrow> bool" where
  "is_dict (JObj kvs) = True"
| "is_dict _ = False"

text \<open>One result counted in a student's summary: \<open>total\<close> and one of \<open>passed\<close>, \<open>failed\<close> go up by one.\<close>

definition counted :: "student_summary \<Rightarrow> student_summary \<Rightarrow> bool" where
  "counted v v' \<longleftrightarrow>
     total v' = total v + 1 \<and> missing v' = missing v \<and>
     (passed v' = passed v + 1 \<and> failed v' = failed v \<or>
      passed v' = passed v \<and> failed v' = failed v + 1)"

text \<open>
  One result recorded for student \<open>k\<close> and test \<open>name\<close>: one row is appended and the
  student's summary counts it.
\<close>

definition recorded :: "string \<Rightarrow> string \<Rightarrow> state \<Rightarrow> state \<Rightarrow> bool" where
  "recorded k name st st' \<longleftrightarrow>
     (\<exists>r. results st' = results st @ [r] \<and> row_student r = k \<and> row_test r = name
          \<and> (row_passed r = 0 \<or> row_passed r = 1)) \<and>
     map fst (summary st') = map fst (summary st) \<and>
     (\<exists>v v'. map_of (summary st) k = Some v \<and> counted v v'
          \<and> map_of (summary st') = (map_of (summary st))(k \<mapsto> v'))"

text \<open>What grading student \<open>k\<close> may change: rows of \<open>k\<close> are appended, and the summary entry of \<open>k\<close>.\<close>

definition touches_only :: "string \<Rightarrow> state \<Rightarrow> state \<Rightarrow> bool" where
  "touches_only k st st' \<longleftrightarrow>
     (\<exists>rows. results st' = results st @ rows \<and> (\<forall>r \<in> set rows. row_student r = k)) \<and>
     map fst (summary st') = map fst (summary st) \<and>
     (\<forall>k'. k' \<noteq> k \<longrightarrow> map_of (summary st') k' = map_of (summary st) k')"

text \<open>The summary dict has one entry per student, and in every entry \<open>total = passed + failed\<close>.\<close>

definition consistent :: "state \<Rightarrow> bool" where
  "consistent st \<longleftrightarrow>
     distinct (map fst (summary st)) \<and>
     (\<forall>(k, s) \<in> set (summary st). total s = passed s + failed s)"

definition example_config :: config where
  "example_config = \<lparr>grader = PA3, python_bin = ''python3'', runner_path = ''/tmp/g/runner.py'',
     tests_dir = ''/tests'', support_arg = ''/tests'', timeout_text = ''20.0''\<rparr>"

definition example_test :: test_file where
  "example_test = \<lparr>tname = ''test_1.py'', tpath = ''/tests/test_1.py''\<rparr>"

definition example_state :: state where
  "example_state = \<lparr>summary = [(''alice'', new_summary)], results = [], launched = []\<rparr>"

text \<open>A summary of two students, in the order in which they were graded.\<close>

definition graded_state :: state where
  "graded_state =
     \<lparr>summary = [(''bob'', \<lparr>total = 4, passed = 3, failed = 1, missing = 0\<rparr>),
                 (''alice'', \<lparr>total = 0, passed = 0, failed = 0, missing = 1\<rparr>)],
      results = [], launched = []\<rparr>"

text \<open>An environment whose children all end the same way and whose decoder gives one result.\<close>

definition example_env :: "proc_result \<Rightarrow> exc_kind + json \<Rightarrow> env" where
  "example_env child decoded =
     \<lparr>json_loads = (\<lambda>s. decoded), py_str = (\<lambda>v. []), subprocess_run = (\<lambda>n cmd. child),
      resolve = (\<lambda>p. p)\<rparr>"

text \<open>Loaded code that does nothing but end with the given outcome.\<close>

definition plain :: "'a outcome \<Rightarrow> 'a effect" where
  "plain r = \<lparr>outcome = r, wrote = [], leaves = None\<rparr>"

text \<open>
  A runner environment in which every path exists: executing the student's module and
  the test module do what is given; the interpreter has the default limit on digits.
\<close>

definition example_renv :: "pymodule effect \<Rightarrow> pymodule effect \<Rightarrow> renv" where
  "example_renv student_exec test_exec =
     \<lparr>path_exists = (\<lambda>p. True), has_spec = (\<lambda>n p. True),
      exec_module = (\<lambda>n p. if n = ''pa3'' then student_exec else test_exec),
      format_exc = (\<lambda>k text. text), stem = (\<lambda>p. ''test_1''), int_max_str_digits = 4300\<rparr>"

definition example_argv :: "string list" where
  "example_argv = [''runner.py'', ''/subs/alice/pa3.py'', ''/tests'', ''/tests'', ''/tests/test_1.py'', ''1337'']"

text \<open>The output of a runner whose test passed.\<close>

definition passing_output :: string where
  \<open>passing_output = ''{"ok": true, "message": "fine"}''\<close>

definition no_entry_point :: pymodule where
  "no_entry_point = \<lparr>TestCase = None\<rparr>"

definition passing_test :: pymodule where
  "passing_test = \<lparr>TestCase = Some (\<lambda>seed. plain (Returns (True, ''ok'')))\<rparr>"



section \<open>Auxiliary facts\<close>

subsection \<open>Sequencing and the summary dict\<close>

lemma ebind_Inr: "ebind m f = Inr y \<longleftrightarrow> (\<exists>x. m = Inr x \<and> f x = Inr y)"
  by (cases m) (auto simp: ebind_def)

lemma ebind_simps [simp]: "ebind (Inr x) f = f x" "ebind (Inl e) f = Inl e"
  by (simp_all add: ebind_def)

lemma raised_in_simps [simp]: "raised_in st (Inr x) = Inr x" "raised_in st (Inl e) = Inl (e, st)"
  by (simp_all add: raised_in_def)

lemma modify_Some:
  "map_of d k = Some v \<Longrightarrow>
   \<exists>d'. modify k f d = Some d' \<and> map_of d' = (map_of d)(k \<mapsto> f v) \<and> map fst d' = map fst d"
proof (induction d)
  case Nil
  then show ?case by simp
next
  case (Cons p d)
  obtain k' v' where p: "p = (k', v')" by (cases p)
  show ?case
  proof (cases "k' = k")
    case True
    with Cons.prems p show ?thesis by (auto simp: fun_eq_iff)
  next
    case False
    with Cons.prems p have "map_of d k = Some v" by simp
    from Cons.IH [OF this] obtain d' where
      "modify k f d = Some d'" "map_of d' = (map_of d)(k \<mapsto> f v)" "map fst d' = map fst d"
      by blast
    with False p show ?thesis by (auto simp: fun_eq_iff)
  qed
qed

lemma modify_None: "modify k f d = None \<longleftrightarrow> map_of d k = None"
  by (induction d) (auto split: if_splits)

lemma update_summary_Inr:
  assumes "map_of (summary st) k = Some v"
  shows "\<exists>st'. update_summary k f st = Inr st' \<and> results st' = results st \<and> launched st' = launched st
           \<and> map fst (summary st') = map fst (summary st)
           \<and> map_of (summary st') = (map_of (summary st))(k \<mapsto> f v)"
proof -
  from modify_Some [OF assms, of f] obtain d' where
    "modify k f (summary st) = Some d'" "map_of d' = (map_of (summary st))(k \<mapsto> f v)"
    "map fst d' = map fst (summary st)" by blast
  then show ?thesis by (simp add: update_summary_def)
qed

lemma update_summary_Inl:
  "update_summary k f st = Inl e \<Longrightarrow> e = (KeyError, st) \<and> map_of (summary st) k = None"
  by (auto simp: update_summary_def modify_None split: option.splits)

lemma update_summary_elim:
  assumes "update_summary k f st = Inr st'"
  shows "\<exists>v. map_of (summary st) k = Some v \<and> results st' = results st \<and> launched st' = launched st
           \<and> map fst (summary st') = map fst (summary st)
           \<and> map_of (summary st') = (map_of (summary st))(k \<mapsto> f v)"
proof (cases "map_of (summary st) k")
  case None
  then have "modify k f (summary st) = None" by (simp add: modify_None)
  with assms show ?thesis by (simp add: update_summary_def)
next
  case (Some v)
  from update_summary_Inr [OF this, of f] assms Some show ?thesis by auto
qed

text \<open>Writing a row and counting it.\<close>

lemma count_row:
  assumes "map_of (summary st) k = Some v"
  shows "\<exists>st'. ebind (update_summary k (\<lambda>s. s\<lparr>total := total s + 1\<rparr>) (writerow r st))
               (update_summary k g) = Inr st'
           \<and> results st' = results st @ [r] \<and> launched st' = launched st
           \<and> map fst (summary st') = map fst (summary st)
           \<and> map_of (summary st') = (map_of (summary st))(k \<mapsto> g (v\<lparr>total := total v + 1\<rparr>))"
proof -
  have "map_of (summary (writerow r st)) k = Some v"
    using assms by (simp add: writerow_def)
  from update_summary_Inr [OF this, of "\<lambda>s. s\<lparr>total := total s + 1\<rparr>"] obtain st1 where
    st1: "update_summary k (\<lambda>s. s\<lparr>total := total s + 1\<rparr>) (writerow r st) = Inr st1"
      "results st1 = results st @ [r]" "launched st1 = launched st"
      "map fst (summary st1) = map fst (summary st)"
      "map_of (summary st1) = (map_of (summary st))(k \<mapsto> v\<lparr>total := total v + 1\<rparr>)"
    by (auto simp: writerow_def)
  then have "map_of (summary st1) k = Some (v\<lparr>total := total v + 1\<rparr>)" by simp
  from update_summary_Inr [OF this, of g] obtain st2 where
    "update_summary k g st1 = Inr st2" "results st2 = results st1" "launched st2 = launched st1"
      "map fst (summary st2) = map fst (summary st1)"
      "map_of (summary st2) = (map_of (summary st1))(k \<mapsto> g (v\<lparr>total := total v + 1\<rparr>))"
    by blast
  with st1 show ?thesis by simp
qed

lemma record_timeout_Inr:
  assumes "map_of (summary st) k = Some v"
  shows "\<exists>st'. record_timeout cfg k name st = Inr st'
           \<and> results st' = results st @ [\<lparr>row_student = k, row_test = name, row_passed = 0,
                                         row_message = JStr (timeout_message cfg)\<rparr>]
           \<and> launched st' = launched st
           \<and> map fst (summary st') = map fst (summary st)
           \<and> map_of (summary st') = (map_of (summary st))(k \<mapsto> v\<lparr>total := total v + 1, failed := failed v + 1\<rparr>)"
  using count_row [OF assms, of _ "\<lambda>s. s\<lparr>failed := failed s + 1\<rparr>"]
  unfolding record_timeout_def by simp


lemma build_message_str:
  "build_message E (JStr m) (JStr e) rc err =
     Inr (JStr (m @ (if e \<noteq> [] then ''\<newline>\<newline>ERROR:\<newline>'' @ e else [])
                 @ (if rc \<noteq> 0 then ''\<newline>\<newline>(subprocess exit code: '' @ str_int rc @ '')'' else [])
                 @ (if err \<noteq> [] \<and> e = [] then ''\<newline>\<newline>STDERR:\<newline>'' @ err else [])))"
  by (simp add: build_message_def iadd_str_def fmt_def)

lemma log_failure_str: "log_failure a name (JStr m) (JStr e) err = None"
  by (cases a) (simp_all add: log_failure_def log_traceback_def log_short_def)

lemma ebind_Inr_right: "ebind m Inr = m"
  by (cases m) simp_all

lemma record_completed_str:
  assumes v: "map_of (summary st) k = Some v"
    and p: "parse_output E (strip stdout) (strip stderr) = Inr (JObj kvs)"
    and m: "(case map_of kvs ''message'' of Some x \<Rightarrow> x | None \<Rightarrow> JStr []) = JStr m"
    and e: "(case map_of kvs ''error'' of Some x \<Rightarrow> x | None \<Rightarrow> JStr []) = JStr e"
    and ok: "ok = truthy (case map_of kvs ''ok'' of Some x \<Rightarrow> x | None \<Rightarrow> JBool False)"
  shows "\<exists>st'. record_completed E a k name stdout stderr rc st = Inr st'
     \<and> results st' = results st @
          [\<lparr>row_student = k, row_test = name, row_passed = (if ok then 1 else 0),
            row_message = JStr (m @ (if e \<noteq> [] then ''\<newline>\<newline>ERROR:\<newline>'' @ e else [])
                 @ (if rc \<noteq> 0 then ''\<newline>\<newline>(subprocess exit code: '' @ str_int rc @ '')'' else [])
                 @ (if strip stderr \<noteq> [] \<and> e = [] then ''\<newline>\<newline>STDERR:\<newline>'' @ strip stderr else []))\<rparr>]
     \<and> launched st' = launched st
     \<and> map fst (summary st') = map fst (summary st)
     \<and> map_of (summary st') = (map_of (summary st))(k \<mapsto>
          (if ok then v\<lparr>total := total v + 1, passed := passed v + 1\<rparr>
           else v\<lparr>total := total v + 1, failed := failed v + 1\<rparr>))"
proof -
  define r where "r = \<lparr>row_student = k, row_test = name, row_passed = (if ok then 1 else (0::int)),
            row_message = JStr (m @ (if e \<noteq> [] then ''\<newline>\<newline>ERROR:\<newline>'' @ e else [])
                 @ (if rc \<noteq> 0 then ''\<newline>\<newline>(subprocess exit code: '' @ str_int rc @ '')'' else [])
                 @ (if strip stderr \<noteq> [] \<and> e = [] then ''\<newline>\<newline>STDERR:\<newline>'' @ strip stderr else []))\<rparr>"
  define g :: "student_summary \<Rightarrow> student_summary" where
    "g = (if ok then (\<lambda>s. s\<lparr>passed := passed s + 1\<rparr>) else (\<lambda>s. s\<lparr>failed := failed s + 1\<rparr>))"
  have eq: "record_completed E a k name stdout stderr rc st =
      ebind (update_summary k (\<lambda>s. s\<lparr>total := total s + 1\<rparr>) (writerow r st)) (update_summary k g)"
  proof (cases ok)
    case True
    then show ?thesis
      using p m e ok unfolding r_def g_def record_completed_def Let_def
      by (simp add: dict_get_def build_message_str split del: if_split cong: if_cong)
  next
    case False
    then show ?thesis
      using p m e ok unfolding r_def g_def record_completed_def Let_def
      by (simp add: dict_get_def build_message_str log_failure_str ebind_Inr_right
            split del: if_split cong: if_cong)
  qed
  from count_row [OF v, of r g] show ?thesis
    unfolding eq r_def [symmetric] by (auto simp: g_def)
qed


subsection \<open>Recording one result\<close>

lemma count_row_elim:
  assumes "ebind (update_summary k (\<lambda>s. s\<lparr>total := total s + 1\<rparr>) (writerow r st)) (update_summary k g) = Inr st'"
  shows "\<exists>v. map_of (summary st) k = Some v
           \<and> results st' = results st @ [r] \<and> launched st' = launched st
           \<and> map fst (summary st') = map fst (summary st)
           \<and> map_of (summary st') = (map_of (summary st))(k \<mapsto> g (v\<lparr>total := total v + 1\<rparr>))"
proof -
  from assms obtain st1 where
    1: "update_summary k (\<lambda>s. s\<lparr>total := total s + 1\<rparr>) (writerow r st) = Inr st1"
    by (auto simp: ebind_Inr)
  from update_summary_elim [OF 1] obtain v where "map_of (summary st) k = Some v"
    by (auto simp: writerow_def)
  from count_row [OF this, of r g] assms this show ?thesis by auto
qed

lemma recordedI:
  assumes "map_of (summary st) k = Some v" "results st' = results st @ [r]"
    "row_student r = k" "row_test r = name" "row_passed r = 0 \<or> row_passed r = 1"
    "map fst (summary st') = map fst (summary st)"
    "map_of (summary st') = (map_of (summary st))(k \<mapsto> v')" "counted v v'"
  shows "recorded k name st st'"
  unfolding recorded_def using assms by blast

lemma counted_failed: "counted v (v\<lparr>total := total v + 1, failed := failed v + 1\<rparr>)"
  by (simp add: counted_def)

lemma counted_passed: "counted v (v\<lparr>total := total v + 1, passed := passed v + 1\<rparr>)"
  by (simp add: counted_def)

lemma record_timeout_recorded:
  assumes "record_timeout cfg k name st = Inr st'"
  shows "recorded k name st st' \<and> launched st' = launched st"
proof -
  from count_row_elim [OF assms [unfolded record_timeout_def]] obtain v where
    v: "map_of (summary st) k = Some v"
    and r: "results st' = results st @ [\<lparr>row_student = k, row_test = name, row_passed = 0,
                         row_message = JStr (timeout_message cfg)\<rparr>]"
    and l: "launched st' = launched st"
    and f: "map fst (summary st') = map fst (summary st)"
    and m: "map_of (summary st') = (map_of (summary st))(k \<mapsto> v\<lparr>total := total v + 1, failed := failed v + 1\<rparr>)"
    by auto
  have "recorded k name st st'"
    by (rule recordedI [OF v r _ _ _ f m counted_failed]) simp_all
  with l show ?thesis by simp
qed

lemma record_completed_recorded:
  assumes "record_completed E a k name stdout stderr rc st = Inr st'"
  shows "recorded k name st st' \<and> launched st' = launched st"
proof -
  from assms obtain okv message error full_message st1 where
    1: "update_summary k (\<lambda>s. s\<lparr>total := total s + 1\<rparr>)
           (writerow \<lparr>row_student = k, row_test = name, row_passed = (if truthy okv then 1 else 0),
                      row_message = full_message\<rparr> st) = Inr st1"
    and 2: "(if truthy okv then update_summary k (\<lambda>s. s\<lparr>passed := passed s + 1\<rparr>) st1
             else ebind (update_summary k (\<lambda>s. s\<lparr>failed := failed s + 1\<rparr>) st1) (\<lambda>st2.
                    case log_failure a name message error (strip stderr) of
                      Some e \<Rightarrow> Inl (e, st2) | None \<Rightarrow> Inr st2)) = Inr st'"
    unfolding record_completed_def Let_def ebind_Inr by blast
  define r where "r = \<lparr>row_student = k, row_test = name, row_passed = (if truthy okv then 1 else (0::int)),
                      row_message = full_message\<rparr>"
  show ?thesis
  proof (cases "truthy okv")
    case True
    with 1 2 have "ebind (update_summary k (\<lambda>s. s\<lparr>total := total s + 1\<rparr>) (writerow r st))
                     (update_summary k (\<lambda>s. s\<lparr>passed := passed s + 1\<rparr>)) = Inr st'"
      by (simp add: r_def)
    from count_row_elim [OF this] obtain v where
      v: "map_of (summary st) k = Some v"
      and rs: "results st' = results st @ [r]"
      and l: "launched st' = launched st"
      and f: "map fst (summary st') = map fst (summary st)"
      and m: "map_of (summary st') = (map_of (summary st))(k \<mapsto> v\<lparr>total := total v + 1, passed := passed v + 1\<rparr>)"
      by auto
    have "recorded k name st st'"
      by (rule recordedI [OF v rs _ _ _ f m counted_passed]) (simp_all add: r_def)
    with l show ?thesis by simp
  next
    case False
    with 2 obtain st2 where "update_summary k (\<lambda>s. s\<lparr>failed := failed s + 1\<rparr>) st1 = Inr st2"
      and "st2 = st'"
      by (auto simp: ebind_Inr split: option.splits)
    with 1 have "ebind (update_summary k (\<lambda>s. s\<lparr>total := total s + 1\<rparr>) (writerow r st))
                     (update_summary k (\<lambda>s. s\<lparr>failed := failed s + 1\<rparr>)) = Inr st'"
      using False by (simp add: r_def)
    from count_row_elim [OF this] obtain v where
      v: "map_of (summary st) k = Some v"
      and rs: "results st' = results st @ [r]"
      and l: "launched st' = launched st"
      and f: "map fst (summary st') = map fst (summary st)"
      and m: "map_of (summary st') = (map_of (summary st))(k \<mapsto> v\<lparr>total := total v + 1, failed := failed v + 1\<rparr>)"
      by auto
    have "recorded k name st st'"
      by (rule recordedI [OF v rs _ _ _ f m counted_failed]) (simp_all add: r_def)
    with l show ?thesis by simp
  qed
qed

lemma run_test_recorded:
  assumes "run_test E cfg k p idx t st = Inr st'"
  shows "recorded k (tname t) st st'
     \<and> launched st' = launched st @ [command E cfg p t (base_seed + int idx)]"
proof (cases "subprocess_run E (length (launched st)) (command E cfg p t (base_seed + int idx))")
  case (Completed out err rc)
  with assms have "record_completed E (grader cfg) k (tname t) out err rc
      (st\<lparr>launched := launched st @ [command E cfg p t (base_seed + int idx)]\<rparr>) = Inr st'"
    by (simp add: run_test_def Let_def)
  from record_completed_recorded [OF this] show ?thesis by (simp add: recorded_def)
next
  case TimeoutExpired
  with assms have "record_timeout cfg k (tname t)
      (st\<lparr>launched := launched st @ [command E cfg p t (base_seed + int idx)]\<rparr>) = Inr st'"
    by (simp add: run_test_def Let_def)
  from record_timeout_recorded [OF this] show ?thesis by (simp add: recorded_def)
next
  case (RunRaised e)
  with assms show ?thesis by (simp add: run_test_def Let_def)
qed

subsection \<open>A student without module\<close>

lemma setdefault_same:
  "map_of (setdefault k v d) k = Some (case map_of d k of Some x \<Rightarrow> x | None \<Rightarrow> v)"
  by (auto simp: setdefault_def map_add_def map_of_eq_None_iff [symmetric] split: option.splits)

lemma setdefault_other:
  "k' \<noteq> k \<Longrightarrow> map_of (setdefault k v d) k' = map_of d k'"
  by (auto simp: setdefault_def map_add_def split: option.splits)

lemma setdefault_keys:
  "set (map fst (setdefault k v d)) = insert k (set (map fst d))"
  by (auto simp: setdefault_def)

lemma missing_rows_Inr:
  "map_of (summary st) k = Some v \<Longrightarrow>
   \<exists>st'. missing_rows a k ts st = Inr st'
     \<and> results st' = results st @ map (\<lambda>t. \<lparr>row_student = k, row_test = tname t, row_passed = 0,
                                             row_message = JStr (not_found_message a)\<rparr>) ts
     \<and> launched st' = launched st
     \<and> map fst (summary st') = map fst (summary st)
     \<and> map_of (summary st') = (map_of (summary st))(k \<mapsto>
          v\<lparr>total := total v + int (length ts), failed := failed v + int (length ts)\<rparr>)"
proof (induction ts arbitrary: st v)
  case Nil
  then show ?case by (simp add: map_upd_triv)
next
  case (Cons t ts)
  let ?r = "\<lparr>row_student = k, row_test = tname t, row_passed = 0, row_message = JStr (not_found_message a)\<rparr>"
  from count_row [OF Cons.prems, of ?r "\<lambda>s. s\<lparr>failed := failed s + 1\<rparr>"] obtain st1 where
    1: "ebind (update_summary k (\<lambda>s. s\<lparr>total := total s + 1\<rparr>) (writerow ?r st))
          (update_summary k (\<lambda>s. s\<lparr>failed := failed s + 1\<rparr>)) = Inr st1"
    and r1: "results st1 = results st @ [?r]" and l1: "launched st1 = launched st"
    and f1: "map fst (summary st1) = map fst (summary st)"
    and m1: "map_of (summary st1) = (map_of (summary st))(k \<mapsto> v\<lparr>total := total v + 1, failed := failed v + 1\<rparr>)"
    by auto
  from m1 have "map_of (summary st1) k = Some (v\<lparr>total := total v + 1, failed := failed v + 1\<rparr>)"
    by simp
  from Cons.IH [OF this] obtain st' where
    2: "missing_rows a k ts st1 = Inr st'"
    and r2: "results st' = results st1 @ map (\<lambda>t. \<lparr>row_student = k, row_test = tname t, row_passed = 0,
                                             row_message = JStr (not_found_message a)\<rparr>) ts"
    and l2: "launched st' = launched st1"
    and f2: "map fst (summary st') = map fst (summary st1)"
    and m2: "map_of (summary st') = (map_of (summary st1))(k \<mapsto>
          v\<lparr>total := total v + 1, failed := failed v + 1\<rparr>
           \<lparr>total := total (v\<lparr>total := total v + 1, failed := failed v + 1\<rparr>) + int (length ts),
            failed := failed (v\<lparr>total := total v + 1, failed := failed v + 1\<rparr>) + int (length ts)\<rparr>)"
    by blast
  have a: "missing_rows a k (t # ts) st = Inr st'"
    using 1 2 by (auto simp: ebind_Inr)
  have b: "map_of (summary st') = (map_of (summary st))(k \<mapsto>
          v\<lparr>total := total v + int (length (t # ts)), failed := failed v + int (length (t # ts))\<rparr>)"
    unfolding m2 m1 by (simp add: add.commute add.left_commute)
  have c: "results st' = results st @ map (\<lambda>t. \<lparr>row_student = k, row_test = tname t, row_passed = 0,
                                             row_message = JStr (not_found_message a)\<rparr>) (t # ts)"
    using r1 r2 by simp
  have d: "launched st' = launched st" using l1 l2 by simp
  have e: "map fst (summary st') = map fst (summary st)" using f1 f2 by simp
  show ?case by (intro exI [of _ st'] conjI) (fact a c d e b)+
qed

subsection \<open>What the runner prints\<close>

lemma printed_append: "printed (xs @ ys) = printed xs @ printed ys"
  by (induction xs rule: printed.induct) auto

lemma on_stdout_append: "on_stdout (xs @ ys) = on_stdout xs @ on_stdout ys"
  by (simp add: on_stdout_def)

lemma on_stdout_simps:
  "on_stdout [] = []"
  "on_stdout (Print v # evs) = Print v # on_stdout evs"
  "on_stdout (Wrote w # evs) = Wrote w # on_stdout evs"
  "on_stdout (SysPathInsert d # evs) = on_stdout evs"
  "on_stdout (RandomSeed i # evs) = on_stdout evs"
  "on_stdout (Invoke # evs) = on_stdout evs"
  by (simp_all add: on_stdout_def)

lemma written_Nil [simp]: "written [] = []"
  by (simp add: written_def)



lemma emit_intact: "intact m \<Longrightarrow> emit m v = ([Print v], Returned)"
  by (simp add: emit_def intact_def)


lemma result_protocol_result: "result_protocol (JObj [(''ok'', JBool ok), (''message'', JStr msg)])"
  by simp









subsection \<open>The outcomes of a child\<close>

lemma run_test_Completed:
  "subprocess_run E (length (launched st)) (command E cfg p t (base_seed + int idx)) = Completed out err rc \<Longrightarrow>
   run_test E cfg k p idx t st =
     record_completed E (grader cfg) k (tname t) out err rc
       (st\<lparr>launched := launched st @ [command E cfg p t (base_seed + int idx)]\<rparr>)"
  by (simp add: run_test_def Let_def)

lemma run_test_TimeoutExpired:
  "subprocess_run E (length (launched st)) (command E cfg p t (base_seed + int idx)) = TimeoutExpired \<Longrightarrow>
   run_test E cfg k p idx t st =
     record_timeout cfg k (tname t)
       (st\<lparr>launched := launched st @ [command E cfg p t (base_seed + int idx)]\<rparr>)"
  by (simp add: run_test_def Let_def)

lemma parse_output_decoded:
  "out \<noteq> [] \<Longrightarrow> json_loads E out = Inr v \<Longrightarrow> parse_output E out err = Inr v"
  by (simp add: parse_output_def)

lemma parse_output_empty: "parse_output E [] err = Inr (JObj [])"
  by (simp add: parse_output_def)

lemma parse_output_invalid:
  "out \<noteq> [] \<Longrightarrow> json_loads E out = Inl JSONDecodeError \<Longrightarrow>
   parse_output E out err =
     Inr (JObj [(''ok'', JBool False), (''message'', JStr ''Invalid JSON output''),
                (''error'', JStr (''STDOUT: '' @ take 500 out @ ''\<newline>STDERR: '' @ take 500 err))])"
  by (simp add: parse_output_def)

lemma strip_example [simp]:
  "strip passing_output = passing_output" "strip ''boom'' = ''boom''" "strip [] = []"
  "strip ''[]'' = ''[]''"
  by (simp_all add: strip_def isspace_def passing_output_def)

lemma strip_replicate: "\<not> isspace c \<Longrightarrow> strip (replicate n c) = replicate n c"
  by (simp add: strip_def)

subsection \<open>The locator\<close>









subsection \<open>Grading students one after the other\<close>

lemma touches_only_refl: "touches_only k st st"
  by (simp add: touches_only_def)

lemma touches_only_trans:
  assumes "touches_only k st st1" "touches_only k st1 st2"
  shows "touches_only k st st2"
proof -
  from assms(1) obtain rows1 where
    r1: "results st1 = results st @ rows1" "\<forall>r \<in> set rows1. row_student r = k"
    by (auto simp: touches_only_def)
  from assms(2) obtain rows2 where
    r2: "results st2 = results st1 @ rows2" "\<forall>r \<in> set rows2. row_student r = k"
    by (auto simp: touches_only_def)
  from r1 r2 have "results st2 = results st @ (rows1 @ rows2) \<and> (\<forall>r \<in> set (rows1 @ rows2). row_student r = k)"
    by auto
  then have "\<exists>rows. results st2 = results st @ rows \<and> (\<forall>r \<in> set rows. row_student r = k)"
    by blast
  with assms show ?thesis by (simp add: touches_only_def)
qed

lemma recorded_touches_only: "recorded k name st st' \<Longrightarrow> touches_only k st st'"
proof -
  assume a: "recorded k name st st'"
  then obtain r where "results st' = results st @ [r]" "row_student r = k"
    by (auto simp: recorded_def)
  then have "results st' = results st @ [r] \<and> (\<forall>x \<in> set [r]. row_student x = k)" by simp
  then have "\<exists>rows. results st' = results st @ rows \<and> (\<forall>x \<in> set rows. row_student x = k)" by blast
  moreover from a have "map fst (summary st') = map fst (summary st)"
    and "\<forall>k'. k' \<noteq> k \<longrightarrow> map_of (summary st') k' = map_of (summary st) k'"
    by (auto simp: recorded_def)
  ultimately show ?thesis by (simp add: touches_only_def)
qed

lemma consistent_iff:
  "consistent st \<longleftrightarrow>
     distinct (map fst (summary st)) \<and>
     (\<forall>k s. map_of (summary st) k = Some s \<longrightarrow> total s = passed s + failed s)"
  by (auto simp: consistent_def)

lemma consistent_update:
  assumes "consistent st"
    and "map fst (summary st') = map fst (summary st)"
    and "map_of (summary st') = (map_of (summary st))(k \<mapsto> v')"
    and "total v' = passed v' + failed v'"
  shows "consistent st'"
  using assms unfolding consistent_iff by (auto split: if_splits)

lemma consistent_recorded:
  assumes "consistent st" "recorded k name st st'"
  shows "consistent st'"
proof -
  from assms(2) obtain v v' where f: "map fst (summary st') = map fst (summary st)"
    and v: "map_of (summary st) k = Some v" and c: "counted v v'"
    and m: "map_of (summary st') = (map_of (summary st))(k \<mapsto> v')"
    by (auto simp: recorded_def)
  from assms(1) v have "total v = passed v + failed v" by (simp add: consistent_iff)
  with c have "total v' = passed v' + failed v'" by (auto simp: counted_def)
  with assms(1) f m show ?thesis by (rule consistent_update)
qed

lemma run_tests_touches:
  "run_tests E cfg k p idx ts st = Inr st' \<Longrightarrow>
   touches_only k st st'
   \<and> launched st' = launched st @ map (\<lambda>(i, t). command E cfg p t (base_seed + int i)) (enumerate idx ts)
   \<and> (consistent st \<longrightarrow> consistent st')"
proof (induction ts arbitrary: idx st)
  case Nil
  then show ?case by (simp add: touches_only_refl)
next
  case (Cons t ts)
  from Cons.prems obtain st1 where 1: "run_test E cfg k p idx t st = Inr st1"
    and 2: "run_tests E cfg k p (Suc idx) ts st1 = Inr st'"
    by (auto simp: ebind_Inr)
  from run_test_recorded [OF 1] have r: "recorded k (tname t) st st1"
    and l: "launched st1 = launched st @ [command E cfg p t (base_seed + int idx)]" by auto
  from Cons.IH [OF 2] have t2: "touches_only k st1 st'"
    and l2: "launched st' = launched st1 @ map (\<lambda>(i, t). command E cfg p t (base_seed + int i)) (enumerate (Suc idx) ts)"
    and c2: "consistent st1 \<longrightarrow> consistent st'" by auto
  have "touches_only k st st'"
    using recorded_touches_only [OF r] t2 by (rule touches_only_trans)
  moreover have "launched st' = launched st @ map (\<lambda>(i, t). command E cfg p t (base_seed + int i)) (enumerate idx (t # ts))"
    using l l2 by simp
  moreover have "consistent st \<longrightarrow> consistent st'"
    using consistent_recorded [OF _ r] c2 by blast
  ultimately show ?case by blast
qed

lemma consistent_setdefault:
  "consistent st \<Longrightarrow> consistent (st\<lparr>summary := setdefault k new_summary (summary st)\<rparr>)"
  by (auto simp: consistent_def setdefault_def new_summary_def)

lemma map_of_setdefault:
  "map_of (setdefault k v d) = (map_of d)(k \<mapsto> (case map_of d k of Some x \<Rightarrow> x | None \<Rightarrow> v))"
  by (rule ext) (simp add: setdefault_same setdefault_other)

text \<open>The branch of a student without module, in full.\<close>

lemma grade_student_missing:
  assumes "locate (grader cfg) (join rootdir k) entries = None"
  shows "\<exists>st'. grade_student E cfg rootdir tests (k, entries) st = Inr st'
     \<and> launched st' = launched st
     \<and> results st' = results st @ map (\<lambda>t. \<lparr>row_student = k, row_test = tname t, row_passed = 0,
                         row_message = JStr (not_found_message (grader cfg))\<rparr>) tests
     \<and> map fst (summary st') = map fst (setdefault k new_summary (summary st))
     \<and> map_of (summary st') = (map_of (summary st))(k \<mapsto>
          (case map_of (summary st) k of Some x \<Rightarrow> x | None \<Rightarrow> new_summary)
            \<lparr>total := total (case map_of (summary st) k of Some x \<Rightarrow> x | None \<Rightarrow> new_summary) + int (length tests),
             failed := failed (case map_of (summary st) k of Some x \<Rightarrow> x | None \<Rightarrow> new_summary) + int (length tests),
             missing := 1\<rparr>)"
proof -
  define v0 where "v0 = (case map_of (summary st) k of Some x \<Rightarrow> x | None \<Rightarrow> new_summary)"
  define st0 where "st0 = st\<lparr>summary := setdefault k new_summary (summary st)\<rparr>"
  have v: "map_of (summary st0) k = Some v0"
    by (simp add: st0_def v0_def setdefault_same)
  from missing_rows_Inr [OF v, of "grader cfg" tests] obtain st1 where
    1: "missing_rows (grader cfg) k tests st0 = Inr st1"
    and r1: "results st1 = results st0 @ map (\<lambda>t. \<lparr>row_student = k, row_test = tname t, row_passed = 0,
                         row_message = JStr (not_found_message (grader cfg))\<rparr>) tests"
    and l1: "launched st1 = launched st0"
    and f1: "map fst (summary st1) = map fst (summary st0)"
    and m1: "map_of (summary st1) = (map_of (summary st0))(k \<mapsto>
               v0\<lparr>total := total v0 + int (length tests), failed := failed v0 + int (length tests)\<rparr>)"
    by blast
  from m1 have "map_of (summary st1) k =
      Some (v0\<lparr>total := total v0 + int (length tests), failed := failed v0 + int (length tests)\<rparr>)" by simp
  from update_summary_Inr [OF this, of "\<lambda>s. s\<lparr>missing := 1\<rparr>"] obtain st' where
    2: "update_summary k (\<lambda>s. s\<lparr>missing := 1\<rparr>) st1 = Inr st'"
    and r2: "results st' = results st1" and l2: "launched st' = launched st1"
    and f2: "map fst (summary st') = map fst (summary st1)"
    and m2: "map_of (summary st') = (map_of (summary st1))(k \<mapsto>
               v0\<lparr>total := total v0 + int (length tests), failed := failed v0 + int (length tests),
                  missing := 1\<rparr>)"
    by auto
  have a: "grade_student E cfg rootdir tests (k, entries) st = Inr st'"
    using assms 1 2 by (simp add: grade_student_def Let_def st0_def)
  have b: "launched st' = launched st" using l1 l2 by (simp add: st0_def)
  have c: "results st' = results st @ map (\<lambda>t. \<lparr>row_student = k, row_test = tname t, row_passed = 0,
                         row_message = JStr (not_found_message (grader cfg))\<rparr>) tests"
    using r1 r2 by (simp add: st0_def)
  have d: "map fst (summary st') = map fst (setdefault k new_summary (summary st))"
    using f1 f2 by (simp add: st0_def)
  have e: "map_of (summary st') = (map_of (summary st))(k \<mapsto>
               v0\<lparr>total := total v0 + int (length tests), failed := failed v0 + int (length tests),
                  missing := 1\<rparr>)"
    unfolding m2 m1 by (simp add: st0_def map_of_setdefault)
  show ?thesis
    unfolding v0_def [symmetric] by (intro exI [of _ st'] conjI) (fact a b c d e)+
qed

text \<open>What grading one student changes, on either branch.\<close>

lemma grade_student_frame:
  assumes "grade_student E cfg rootdir tests sd st = Inr st'"
  shows "(\<exists>rows. results st' = results st @ rows \<and> (\<forall>r \<in> set rows. row_student r = fst sd))
     \<and> set (map fst (summary st')) = insert (fst sd) (set (map fst (summary st)))
     \<and> (\<forall>k'. k' \<noteq> fst sd \<longrightarrow> map_of (summary st') k' = map_of (summary st) k')
     \<and> (consistent st \<longrightarrow> consistent st')"
proof (cases "locate (grader cfg) (join rootdir (fst sd)) (snd sd)")
  case None
  from grade_student_missing [OF None, of E tests st] assms obtain
    r: "results st' = results st @ map (\<lambda>t. \<lparr>row_student = fst sd, row_test = tname t, row_passed = 0,
                         row_message = JStr (not_found_message (grader cfg))\<rparr>) tests"
    and f: "map fst (summary st') = map fst (setdefault (fst sd) new_summary (summary st))"
    and m: "map_of (summary st') = (map_of (summary st))(fst sd \<mapsto>
          (case map_of (summary st) (fst sd) of Some x \<Rightarrow> x | None \<Rightarrow> new_summary)
            \<lparr>total := total (case map_of (summary st) (fst sd) of Some x \<Rightarrow> x | None \<Rightarrow> new_summary) + int (length tests),
             failed := failed (case map_of (summary st) (fst sd) of Some x \<Rightarrow> x | None \<Rightarrow> new_summary) + int (length tests),
             missing := 1\<rparr>)"
    by auto
  define st0 where "st0 = st\<lparr>summary := setdefault (fst sd) new_summary (summary st)\<rparr>"
  have a: "\<exists>rows. results st' = results st @ rows \<and> (\<forall>r \<in> set rows. row_student r = fst sd)"
    using r by auto
  have b: "set (map fst (summary st')) = insert (fst sd) (set (map fst (summary st)))"
    unfolding f by (rule setdefault_keys)
  have c: "\<forall>k'. k' \<noteq> fst sd \<longrightarrow> map_of (summary st') k' = map_of (summary st) k'"
    unfolding m by simp
  have d: "consistent st \<longrightarrow> consistent st'"
  proof
    assume cs: "consistent st"
    then have c0: "consistent st0" unfolding st0_def by (rule consistent_setdefault)
    have f0: "map fst (summary st') = map fst (summary st0)" using f by (simp add: st0_def)
    have v0: "total (case map_of (summary st) (fst sd) of Some x \<Rightarrow> x | None \<Rightarrow> new_summary)
        = passed (case map_of (summary st) (fst sd) of Some x \<Rightarrow> x | None \<Rightarrow> new_summary)
          + failed (case map_of (summary st) (fst sd) of Some x \<Rightarrow> x | None \<Rightarrow> new_summary)"
      using cs by (auto simp: consistent_iff new_summary_def split: option.splits)
    have m0: "map_of (summary st') = (map_of (summary st0))(fst sd \<mapsto>
          (case map_of (summary st) (fst sd) of Some x \<Rightarrow> x | None \<Rightarrow> new_summary)
            \<lparr>total := total (case map_of (summary st) (fst sd) of Some x \<Rightarrow> x | None \<Rightarrow> new_summary) + int (length tests),
             failed := failed (case map_of (summary st) (fst sd) of Some x \<Rightarrow> x | None \<Rightarrow> new_summary) + int (length tests),
             missing := 1\<rparr>)"
      unfolding m by (simp add: st0_def map_of_setdefault)
    show "consistent st'"
      by (rule consistent_update [OF c0 f0 m0]) (simp add: v0)
  qed
  from a b c d show ?thesis by blast
next
  case (Some p)
  define st0 where "st0 = st\<lparr>summary := setdefault (fst sd) new_summary (summary st)\<rparr>"
  from assms Some have "run_tests E cfg (fst sd) p 0 tests st0 = Inr st'"
    by (simp add: grade_student_def Let_def st0_def)
  from run_tests_touches [OF this] have t: "touches_only (fst sd) st0 st'"
    and c: "consistent st0 \<longrightarrow> consistent st'" by auto
  from t have a: "\<exists>rows. results st' = results st @ rows \<and> (\<forall>r \<in> set rows. row_student r = fst sd)"
    by (simp add: touches_only_def st0_def)
  from t have "map fst (summary st') = map fst (setdefault (fst sd) new_summary (summary st))"
    by (simp add: touches_only_def st0_def)
  then have b: "set (map fst (summary st')) = insert (fst sd) (set (map fst (summary st)))"
    by (simp only: setdefault_keys)
  from t have d: "\<forall>k'. k' \<noteq> fst sd \<longrightarrow> map_of (summary st') k' = map_of (summary st) k'"
    by (simp add: touches_only_def st0_def setdefault_other)
  have e: "consistent st \<longrightarrow> consistent st'"
    using c consistent_setdefault [of st "fst sd"] by (auto simp: st0_def)
  from a b d e show ?thesis by blast
qed

lemma grade_students_append:
  "grade_students E cfg rootdir tests (xs @ ys) st =
     ebind (grade_students E cfg rootdir tests xs st) (grade_students E cfg rootdir tests ys)"
proof (induction xs arbitrary: st)
  case Nil
  then show ?case by simp
next
  case (Cons x xs)
  then show ?case
    by (cases "grade_student E cfg rootdir tests x st") simp_all
qed

lemma grade_students_frame:
  "grade_students E cfg rootdir tests sds st = Inr st' \<Longrightarrow>
   set (map fst (summary st')) = set (map fst (summary st)) \<union> fst ` set sds
   \<and> (\<forall>k. k \<notin> fst ` set sds \<longrightarrow>
         map_of (summary st') k = map_of (summary st) k
         \<and> filter (\<lambda>r. row_student r = k) (results st') = filter (\<lambda>r. row_student r = k) (results st))
   \<and> (consistent st \<longrightarrow> consistent st')"
proof (induction sds arbitrary: st)
  case Nil
  then show ?case by simp
next
  case (Cons sd sds)
  from Cons.prems obtain st1 where 1: "grade_student E cfg rootdir tests sd st = Inr st1"
    and 2: "grade_students E cfg rootdir tests sds st1 = Inr st'"
    by (auto simp: ebind_Inr)
  from grade_student_frame [OF 1] obtain rows where
    r: "results st1 = results st @ rows" "\<forall>r \<in> set rows. row_student r = fst sd"
    and k1: "set (map fst (summary st1)) = insert (fst sd) (set (map fst (summary st)))"
    and m1: "\<forall>k'. k' \<noteq> fst sd \<longrightarrow> map_of (summary st1) k' = map_of (summary st) k'"
    and c1: "consistent st \<longrightarrow> consistent st1" by blast
  from Cons.IH [OF 2] have
    k2: "set (map fst (summary st')) = set (map fst (summary st1)) \<union> fst ` set sds"
    and m2: "\<forall>k. k \<notin> fst ` set sds \<longrightarrow>
         map_of (summary st') k = map_of (summary st1) k
         \<and> filter (\<lambda>r. row_student r = k) (results st') = filter (\<lambda>r. row_student r = k) (results st1)"
    and c2: "consistent st1 \<longrightarrow> consistent st'" by auto
  have a: "set (map fst (summary st')) = set (map fst (summary st)) \<union> fst ` set (sd # sds)"
    using k1 k2 by auto
  have b: "\<forall>k. k \<notin> fst ` set (sd # sds) \<longrightarrow>
         map_of (summary st') k = map_of (summary st) k
         \<and> filter (\<lambda>r. row_student r = k) (results st') = filter (\<lambda>r. row_student r = k) (results st)"
  proof (intro allI impI)
    fix k assume k: "k \<notin> fst ` set (sd # sds)"
    then have ne: "k \<noteq> fst sd" and ni: "k \<notin> fst ` set sds" by auto
    have "filter (\<lambda>r. row_student r = k) rows = []"
      using r(2) ne by (auto simp: filter_empty_conv)
    with r(1) have "filter (\<lambda>r. row_student r = k) (results st1) = filter (\<lambda>r. row_student r = k) (results st)"
      by simp
    with m1 m2 ne ni show "map_of (summary st') k = map_of (summary st) k
         \<and> filter (\<lambda>r. row_student r = k) (results st') = filter (\<lambda>r. row_student r = k) (results st)"
      by simp
  qed
  from a b c1 c2 show ?case by blast
qed

lemma consistent_initial: "consistent initial_state"
  by (simp add: consistent_def initial_state_def)


subsection \<open>The summary writer, decimal text, seeding\<close>

lemma percent_passed_eq:
  "percent_passed s =
     Inr (if total s = 0 then 0 else real_of_int (passed s) / real_of_int (total s) * 100)"
  by (simp add: percent_passed_def py_div_def)

lemma write_summary_eq:
  "write_summary d =
     Inr (map (\<lambda>(n, s). \<lparr>sum_student = n, sum_total = total s, sum_passed = passed s,
                          sum_failed = failed s,
                          sum_percent = (if total s = 0 then 0
                                         else real_of_int (passed s) / real_of_int (total s) * 100),
                          sum_missing = missing s\<rparr>) d)"
  by (induction d rule: write_summary.induct) (simp_all add: percent_passed_eq)

lemma map_insort_key: "map f (insort_key f x ys) = insort (f x) (map f ys)"
  by (induction ys) simp_all

lemma map_sort_key: "map f (sort_key f xs) = sort (map f xs)"
  by (induction xs) (simp_all add: map_insort_key)

lemma summary_rows_final:
  assumes "\<forall>(n, s) \<in> set (summary st). total s = passed s + failed s"
  shows "\<exists>rows. summary_rows st = Inr rows
          \<and> map sum_student rows = sort (map fst (summary st))
          \<and> (\<forall>r \<in> set rows. sum_total r = sum_passed r + sum_failed r)"
proof -
  have "map sum_student (map (\<lambda>(n, s). \<lparr>sum_student = n, sum_total = total s, sum_passed = passed s,
                          sum_failed = failed s,
                          sum_percent = (if total s = 0 then 0
                                         else real_of_int (passed s) / real_of_int (total s) * 100),
                          sum_missing = missing s\<rparr>) (sort_key fst (summary st)))
          = map fst (sort_key fst (summary st))"
    by (simp add: comp_def case_prod_beta)
  then show ?thesis
    using assms
    by (auto simp: summary_rows_def write_summary_eq map_sort_key)
qed

lemma missing_rows_single:
  assumes "missing_rows a k [t] st = Inr st'"
  shows "recorded k (tname t) st st'"
proof -
  let ?r = "\<lparr>row_student = k, row_test = tname t, row_passed = 0, row_message = JStr (not_found_message a)\<rparr>"
  from assms have "ebind (update_summary k (\<lambda>s. s\<lparr>total := total s + 1\<rparr>) (writerow ?r st))
                     (update_summary k (\<lambda>s. s\<lparr>failed := failed s + 1\<rparr>)) = Inr st'"
    by (auto simp: ebind_Inr)
  from count_row_elim [OF this] obtain v where
    v: "map_of (summary st) k = Some v"
    and rs: "results st' = results st @ [?r]"
    and f: "map fst (summary st') = map fst (summary st)"
    and m: "map_of (summary st') = (map_of (summary st))(k \<mapsto> v\<lparr>total := total v + 1, failed := failed v + 1\<rparr>)"
    by auto
  show ?thesis
    by (rule recordedI [OF v rs _ _ _ f m counted_failed]) simp_all
qed

text \<open>Decimal text of an integer, read back.\<close>

lemma digit_char_props:
  "is_digit (digit_char d) \<and> digit_val (digit_char d) = d mod 10
   \<and> \<not> isspace (digit_char d) \<and> \<not> int_space (digit_char d) \<and> digit_char d \<noteq> CHR ''_''
   \<and> digit_char d \<noteq> CHR ''-'' \<and> digit_char d \<noteq> CHR ''+''"
proof -
  have "d mod 10 < 10" by simp
  then consider "d mod 10 = 0" | "d mod 10 = 1" | "d mod 10 = 2" | "d mod 10 = 3" | "d mod 10 = 4"
    | "d mod 10 = 5" | "d mod 10 = 6" | "d mod 10 = 7" | "d mod 10 = 8" | "d mod 10 = 9"
    by atomize_elim presburger
  then show ?thesis
    by cases (simp_all add: digit_char_def is_digit_def digit_val_def isspace_def int_space_def)
qed

lemma is_digit_props:
  "is_digit c \<Longrightarrow> \<not> isspace c \<and> \<not> int_space c \<and> c \<noteq> CHR ''_'' \<and> c \<noteq> CHR ''-'' \<and> c \<noteq> CHR ''+''"
  by (auto simp: is_digit_def isspace_def int_space_def)

lemma str_nat_digits: "str_nat n \<noteq> [] \<and> (\<forall>c \<in> set (str_nat n). is_digit c)"
proof (induction n rule: str_nat.induct)
  case (1 n)
  show ?case
  proof (cases "n < 10")
    case True
    then show ?thesis by (simp add: str_nat.simps [of n] digit_char_props)
  next
    case False
    with 1 show ?thesis by (simp add: str_nat.simps [of n] digit_char_props)
  qed
qed

lemma parse_digits_all:
  "\<forall>c \<in> set ds. is_digit c \<Longrightarrow>
   parse_digits acc ds = Some (foldl (\<lambda>a c. a * 10 + digit_val c) acc ds)"
  by (induction ds arbitrary: acc) (auto dest: is_digit_props)

lemma foldl_str_nat: "foldl (\<lambda>a c. a * 10 + digit_val c) 0 (str_nat n) = n"
proof (induction n rule: str_nat.induct)
  case (1 n)
  show ?case
  proof (cases "n < 10")
    case True
    then show ?thesis by (simp add: str_nat.simps [of n] digit_char_props)
  next
    case False
    with 1 have "foldl (\<lambda>a c. a * 10 + digit_val c) 0 (str_nat (n div 10)) = n div 10" by simp
    with False show ?thesis by (simp add: str_nat.simps [of n] digit_char_props)
  qed
qed

lemma int_strip_no_space:
  assumes "s \<noteq> []" "\<not> int_space (hd s)" "\<not> int_space (last s)"
  shows "int_strip s = s"
proof -
  have "dropWhile int_space s = s" using assms(1,2) by (cases s) simp_all
  moreover have "dropWhile int_space (rev s) = rev s"
    using assms(1,3) by (cases "rev s") (simp_all add: hd_rev [symmetric])
  ultimately show ?thesis by (simp add: int_strip_def)
qed

lemma py_int_digits:
  assumes "ds \<noteq> []" "\<forall>c \<in> set ds. is_digit c"
  shows "py_int ds = Some (int (foldl (\<lambda>a c. a * 10 + digit_val c) 0 ds))"
    and "py_int (CHR ''-'' # ds) = Some (- int (foldl (\<lambda>a c. a * 10 + digit_val c) 0 ds))"
proof -
  from assms obtain c cs where ds: "ds = c # cs" by (cases ds) auto
  with assms(2) have c: "is_digit c" and cs: "\<forall>x \<in> set cs. is_digit x" by auto
  have l: "is_digit (last ds)" using assms by simp
  have s1: "int_strip ds = ds"
    using assms(1) c l ds by (intro int_strip_no_space) (auto dest: is_digit_props)
  have s2: "int_strip (CHR ''-'' # ds) = CHR ''-'' # ds"
    using assms(1) l by (intro int_strip_no_space) (auto dest: is_digit_props simp: int_space_def)
  have p: "parse_digits (digit_val c) cs = Some (foldl (\<lambda>a c. a * 10 + digit_val c) 0 ds)"
    using parse_digits_all [OF cs, of "digit_val c"] ds by simp
  show "py_int ds = Some (int (foldl (\<lambda>a c. a * 10 + digit_val c) 0 ds))"
    using c p is_digit_props [OF c] unfolding py_int_def s1 by (simp add: ds Let_def)
  show "py_int (CHR ''-'' # ds) = Some (- int (foldl (\<lambda>a c. a * 10 + digit_val c) 0 ds))"
    using c p unfolding py_int_def s2 by (simp add: ds Let_def)
qed

lemma py_int_str_int: "py_int (str_int i) = Some i"
proof (cases "i < 0")
  case True
  from py_int_digits(2) [of "str_nat (nat (- i))"] str_nat_digits [of "nat (- i)"] True
  show ?thesis by (simp add: str_int_def foldl_str_nat)
next
  case False
  from py_int_digits(1) [of "str_nat (nat i)"] str_nat_digits [of "nat i"] False
  show ?thesis by (simp add: str_int_def foldl_str_nat)
qed

text \<open>The decimal text of a number below \<open>10 ^ k\<close> has at most \<open>k\<close> digits.\<close>

lemma length_str_nat: "0 < k \<Longrightarrow> n < 10 ^ k \<Longrightarrow> length (str_nat n) \<le> k"
proof (induction n arbitrary: k rule: str_nat.induct)
  case (1 n)
  show ?case
  proof (cases "n < 10")
    case True
    with 1(2) show ?thesis by (simp add: str_nat.simps [of n])
  next
    case False
    with 1(3) have k: "1 < k" by (cases "k = 1") (use 1(2) in auto)
    then obtain j where j: "k = Suc j" "0 < j" by (cases k) auto
    from 1(3) j have "n div 10 < 10 ^ j" by (simp add: less_mult_imp_div_less mult.commute)
    from 1(1) [OF False j(2) this] False j show ?thesis by (simp add: str_nat.simps [of n])
  qed
qed

lemma count_digits_str_int: "count_digits (str_int i) = length (str_nat (nat \<bar>i\<bar>))"
proof -
  have d: "filter is_digit (str_nat n) = str_nat n" for n
    using str_nat_digits [of n] by (simp add: filter_id_conv)
  have m: "\<not> is_digit CHR ''-''" by (simp add: is_digit_def)
  show ?thesis
    by (cases "i < 0") (simp_all add: count_digits_def str_int_def d m)
qed

lemma py_int_max_str_int:
  assumes "\<bar>i\<bar> < 10 ^ 640"
  shows "py_int_max limit (str_int i) = Some i"
proof -
  from assms have "nat \<bar>i\<bar> < 10 ^ 640"
    by (metis nat_less_iff abs_ge_zero of_nat_numeral of_nat_power)
  then have "length (str_nat (nat \<bar>i\<bar>)) \<le> 640" by (intro length_str_nat) simp_all
  then show ?thesis by (simp add: py_int_max_def count_digits_str_int py_int_str_int)
qed

lemma py_int_max_Some: "py_int_max limit s = Some i \<Longrightarrow> py_int s = Some i"
  by (simp add: py_int_max_def split: if_splits)

text \<open>The runner seeds the random source just before it calls the entry point.\<close>

lemma run_TestCase_Invoke:
  "Invoke \<notin> set (fst (run_TestCase R m seed tm))
   \<or> (\<exists>post. fst (run_TestCase R m seed tm) = Invoke # post \<and> Invoke \<notin> set post)"
  by (auto simp: run_TestCase_def Let_def after_def emit_def written_def
      split: option.splits outcome.splits channel.splits)

lemma emit_no_Invoke: "Invoke \<notin> set (fst (emit m v))"
  by (simp add: emit_def written_def split: channel.splits)

lemma runner_main_seeded:
  assumes "py_int (argv ! 5) = Some seed" "Invoke \<in> set (fst (runner_main a R argv))"
  shows "\<exists>pre post. fst (runner_main a R argv) = pre @ RandomSeed seed # Invoke # post
           \<and> Invoke \<notin> set pre \<and> Invoke \<notin> set post \<and> (\<forall>s. RandomSeed s \<notin> set pre)"
proof -
  define s where "s = load_module_from_path R (student_module a) (argv ! 1)"
  define t where "t = load_module_from_path R (stem R (argv ! 4)) (argv ! 4)"
  define pre where "pre =
     (if argv ! 2 \<noteq> [] \<and> path_exists R (argv ! 2) then [SysPathInsert (argv ! 2)] else [])
      @ (if argv ! 3 \<noteq> [] \<and> path_exists R (argv ! 3) then [SysPathInsert (argv ! 3)] else [])
      @ written (wrote s) @ written (wrote t)"
  have np: "Invoke \<notin> set pre" "\<forall>s. RandomSeed s \<notin> set pre"
    by (auto simp: pre_def written_def)
  have seed: "py_int_max (int_max_str_digits R) (argv ! 5) = Some seed"
    if "py_int_max (int_max_str_digits R) (argv ! 5) \<noteq> None"
    using that assms(1) by (simp add: py_int_max_def split: if_splits)
  from assms(2) obtain test_mod where
    ev: "fst (runner_main a R argv) =
           pre @ RandomSeed seed # fst (run_TestCase R (after_call (after_call untouched s) t) seed test_mod)"
    using emit_no_Invoke seed
    unfolding pre_def s_def t_def
    by (auto simp: runner_main_def Let_def after_def written_def
        split: if_splits outcome.splits option.splits)
  with assms(2) np
  have "Invoke \<in> set (fst (run_TestCase R (after_call (after_call untouched s) t) seed test_mod))"
    by auto
  with run_TestCase_Invoke [of R "after_call (after_call untouched s) t" seed test_mod]
  obtain post where
    "fst (run_TestCase R (after_call (after_call untouched s) t) seed test_mod) = Invoke # post"
    "Invoke \<notin> set post" by auto
  with ev np have "fst (runner_main a R argv) = pre @ RandomSeed seed # Invoke # post
           \<and> Invoke \<notin> set pre \<and> Invoke \<notin> set post \<and> (\<forall>s. RandomSeed s \<notin> set pre)" by simp
  then show ?thesis by blast
qed

subsection \<open>Runs that end with an exception\<close>

text \<open>The state an exception leaves behind.\<close>

lemma final_state_simps [simp]: "final_state (Inr st) = st" "final_state (Inl (e, st)) = st"
  by (simp_all add: final_state_def)

lemma update_summary_twice:
  assumes "update_summary k f st = Inr st1"
  shows "update_summary k g st1 \<noteq> Inl x"
proof
  assume "update_summary k g st1 = Inl x"
  then have "map_of (summary st1) k = None" by (auto dest: update_summary_Inl)
  moreover from update_summary_elim [OF assms] have "map_of (summary st1) k \<noteq> None" by auto
  ultimately show False by simp
qed

lemma record_completed_Inl:
  assumes "record_completed E a k name stdout stderr rc st = Inl (e, st')"
  shows "launched st' = launched st
     \<and> (summary st' = summary st
          \<and> (\<exists>rows. results st' = results st @ rows \<and> (\<forall>r \<in> set rows. row_student r = k))
        \<or> recorded k name st st')"
proof (cases "parse_output E (strip stdout) (strip stderr)")
  case (Inl x)
  with assms have "st' = st" by (simp add: record_completed_def Let_def)
  then show ?thesis by simp
next
  case data: (Inr data)
  show ?thesis
  proof (cases "dict_get data ''ok'' (JBool False)")
    case (Inl x)
    with assms data have "st' = st" by (simp add: record_completed_def Let_def)
    then show ?thesis by simp
  next
    case okv: (Inr okv)
    show ?thesis
    proof (cases "dict_get data ''message'' (JStr [])")
      case (Inl x)
      with assms data okv have "st' = st" by (simp add: record_completed_def Let_def)
      then show ?thesis by simp
    next
      case message: (Inr message)
      show ?thesis
      proof (cases "dict_get data ''error'' (JStr [])")
        case (Inl x)
        with assms data okv message have "st' = st" by (simp add: record_completed_def Let_def)
        then show ?thesis by simp
      next
        case error: (Inr error)
        show ?thesis
        proof (cases "build_message E message error rc (strip stderr)")
          case (Inl x)
          with assms data okv message error have "st' = st"
            by (simp add: record_completed_def Let_def)
          then show ?thesis by simp
        next
          case full: (Inr full_message)
          define r where "r = \<lparr>row_student = k, row_test = name,
              row_passed = (if truthy okv then 1 else (0::int)), row_message = full_message\<rparr>"
          have rest: "ebind (update_summary k (\<lambda>s. s\<lparr>total := total s + 1\<rparr>) (writerow r st)) (\<lambda>st1.
               if truthy okv then update_summary k (\<lambda>s. s\<lparr>passed := passed s + 1\<rparr>) st1
               else ebind (update_summary k (\<lambda>s. s\<lparr>failed := failed s + 1\<rparr>) st1) (\<lambda>st2.
                      case log_failure a name message error (strip stderr) of
                        Some e \<Rightarrow> Inl (e, st2) | None \<Rightarrow> Inr st2)) = Inl (e, st')"
            using assms data okv message error full
            by (simp add: record_completed_def Let_def r_def)
          show ?thesis
          proof (cases "update_summary k (\<lambda>s. s\<lparr>total := total s + 1\<rparr>) (writerow r st)")
            case (Inl x)
            with rest have "st' = writerow r st" by (auto dest: update_summary_Inl)
            then have "launched st' = launched st" "summary st' = summary st"
              "results st' = results st @ [r] \<and> (\<forall>x \<in> set [r]. row_student x = k)"
              by (simp_all add: writerow_def r_def)
            then show ?thesis by blast
          next
            case st1: (Inr st1)
            show ?thesis
            proof (cases "truthy okv")
              case True
              with rest st1 update_summary_twice [OF st1] show ?thesis by simp
            next
              case False
              with rest st1 update_summary_twice [OF st1] obtain st2 where
                2: "update_summary k (\<lambda>s. s\<lparr>failed := failed s + 1\<rparr>) st1 = Inr st2"
                and "st2 = st'"
                by (cases "update_summary k (\<lambda>s. s\<lparr>failed := failed s + 1\<rparr>) st1")
                  (auto split: option.splits)
              with st1 have "ebind (update_summary k (\<lambda>s. s\<lparr>total := total s + 1\<rparr>) (writerow r st))
                     (update_summary k (\<lambda>s. s\<lparr>failed := failed s + 1\<rparr>)) = Inr st'"
                by simp
              from count_row_elim [OF this] obtain v where
                v: "map_of (summary st) k = Some v"
                and rs: "results st' = results st @ [r]"
                and l: "launched st' = launched st"
                and f: "map fst (summary st') = map fst (summary st)"
                and m: "map_of (summary st') = (map_of (summary st))(k \<mapsto> v\<lparr>total := total v + 1, failed := failed v + 1\<rparr>)"
                by auto
              have "recorded k name st st'"
                by (rule recordedI [OF v rs _ _ _ f m counted_failed]) (simp_all add: r_def)
              with l show ?thesis by simp
            qed
          qed
        qed
      qed
    qed
  qed
qed

lemma record_timeout_Inl:
  assumes "record_timeout cfg k name st = Inl (e, st')"
  shows "launched st' = launched st \<and> summary st' = summary st
     \<and> (\<exists>rows. results st' = results st @ rows \<and> (\<forall>r \<in> set rows. row_student r = k))"
proof -
  let ?r = "\<lparr>row_student = k, row_test = name, row_passed = 0, row_message = JStr (timeout_message cfg)\<rparr>"
  show ?thesis
  proof (cases "update_summary k (\<lambda>s. s\<lparr>total := total s + 1\<rparr>) (writerow ?r st)")
    case (Inl x)
    with assms have "st' = writerow ?r st"
      by (auto simp: record_timeout_def dest: update_summary_Inl)
    then have "launched st' = launched st" "summary st' = summary st"
      "results st' = results st @ [?r] \<and> (\<forall>x \<in> set [?r]. row_student x = k)"
      by (simp_all add: writerow_def)
    then show ?thesis by blast
  next
    case (Inr st1)
    with assms update_summary_twice [OF Inr] show ?thesis
      by (simp add: record_timeout_def)
  qed
qed

text \<open>One step of the test loop, however it ends.\<close>

lemma consistent_same_summary:
  "consistent st \<Longrightarrow> summary st' = summary st \<Longrightarrow> consistent st'"
  by (simp add: consistent_def)

lemma touches_only_same_summary:
  "summary st' = summary st \<Longrightarrow>
   \<exists>rows. results st' = results st @ rows \<and> (\<forall>r \<in> set rows. row_student r = k) \<Longrightarrow>
   touches_only k st st'"
  by (simp add: touches_only_def)

lemma run_test_any:
  "touches_only k st (final_state (run_test E cfg k p idx t st))
   \<and> launched (final_state (run_test E cfg k p idx t st))
       = launched st @ [command E cfg p t (base_seed + int idx)]
   \<and> (consistent st \<longrightarrow> consistent (final_state (run_test E cfg k p idx t st)))"
proof (cases "run_test E cfg k p idx t st")
  case (Inr st')
  from run_test_recorded [OF Inr] recorded_touches_only consistent_recorded Inr
  show ?thesis by auto
next
  case (Inl x)
  obtain e st' where x: "x = (e, st')" by (cases x)
  let ?cmd = "command E cfg p t (base_seed + int idx)"
  let ?st1 = "st\<lparr>launched := launched st @ [?cmd]\<rparr>"
  have "launched st' = launched ?st1
     \<and> (summary st' = summary ?st1
          \<and> (\<exists>rows. results st' = results ?st1 @ rows \<and> (\<forall>r \<in> set rows. row_student r = k))
        \<or> recorded k (tname t) ?st1 st')"
  proof (cases "subprocess_run E (length (launched st)) ?cmd")
    case (Completed out err rc)
    with Inl x have "record_completed E (grader cfg) k (tname t) out err rc ?st1 = Inl (e, st')"
      by (simp add: run_test_def Let_def)
    from record_completed_Inl [OF this] show ?thesis .
  next
    case TimeoutExpired
    with Inl x have "record_timeout cfg k (tname t) ?st1 = Inl (e, st')"
      by (simp add: run_test_def Let_def)
    from record_timeout_Inl [OF this] show ?thesis by blast
  next
    case (RunRaised e')
    with Inl x have "st' = ?st1" by (simp add: run_test_def Let_def)
    then show ?thesis by simp
  qed
  then have l: "launched st' = launched st @ [?cmd]"
    and d: "summary st' = summary st
          \<and> (\<exists>rows. results st' = results st @ rows \<and> (\<forall>r \<in> set rows. row_student r = k))
        \<or> recorded k (tname t) st st'"
    by (auto simp: recorded_def)
  from d have "touches_only k st st' \<and> (consistent st \<longrightarrow> consistent st')"
    using touches_only_same_summary [of st' st k] consistent_same_summary [of st st']
      recorded_touches_only [of k "tname t" st st'] consistent_recorded [of st k "tname t" st']
    by blast
  with l Inl x show ?thesis by simp
qed

lemma run_tests_any:
  "touches_only k st (final_state (run_tests E cfg k p idx ts st))
   \<and> (\<exists>j \<le> length ts. launched (final_state (run_tests E cfg k p idx ts st))
         = launched st @ map (\<lambda>(i, t). command E cfg p t (base_seed + int i)) (take j (enumerate idx ts)))
   \<and> (consistent st \<longrightarrow> consistent (final_state (run_tests E cfg k p idx ts st)))"
proof (induction ts arbitrary: idx st)
  case Nil
  then show ?case by (simp add: touches_only_refl)
next
  case (Cons t ts)
  let ?cmds = "\<lambda>n xs. map (\<lambda>(i, t). command E cfg p t (base_seed + int i)) (enumerate n xs)"
  from run_test_any [of k st E cfg p idx t] have
    t1: "touches_only k st (final_state (run_test E cfg k p idx t st))"
    and l1: "launched (final_state (run_test E cfg k p idx t st))
               = launched st @ [command E cfg p t (base_seed + int idx)]"
    and c1: "consistent st \<longrightarrow> consistent (final_state (run_test E cfg k p idx t st))" by auto
  show ?case
  proof (cases "run_test E cfg k p idx t st")
    case (Inl x)
    obtain e st' where x: "x = (e, st')" by (cases x)
    with Inl have r: "run_tests E cfg k p idx (t # ts) st = Inl (e, st')" by simp
    from l1 Inl x have "launched st' = launched st @ take 1 (?cmds idx (t # ts))" by simp
    then have "\<exists>j \<le> length (t # ts). launched st' = launched st
         @ map (\<lambda>(i, t). command E cfg p t (base_seed + int i)) (take j (enumerate idx (t # ts)))"
      by (intro exI [of _ 1]) (simp add: take_map)
    with t1 c1 Inl x r show ?thesis by simp
  next
    case (Inr st1)
    then have r: "run_tests E cfg k p idx (t # ts) st = run_tests E cfg k p (Suc idx) ts st1" by simp
    from Cons.IH [of st1 "Suc idx"] obtain j where
      t2: "touches_only k st1 (final_state (run_tests E cfg k p (Suc idx) ts st1))"
      and j: "j \<le> length ts"
      and l2: "launched (final_state (run_tests E cfg k p (Suc idx) ts st1))
         = launched st1 @ map (\<lambda>(i, t). command E cfg p t (base_seed + int i)) (take j (enumerate (Suc idx) ts))"
      and c2: "consistent st1 \<longrightarrow> consistent (final_state (run_tests E cfg k p (Suc idx) ts st1))"
      by blast
    from t1 t2 Inr have a: "touches_only k st (final_state (run_tests E cfg k p idx (t # ts) st))"
      unfolding r by (auto intro: touches_only_trans)
    from l1 l2 Inr have "launched (final_state (run_tests E cfg k p idx (t # ts) st))
         = launched st @ map (\<lambda>(i, t). command E cfg p t (base_seed + int i)) (take (Suc j) (enumerate idx (t # ts)))"
      unfolding r by simp
    with j have b: "\<exists>j \<le> length (t # ts). launched (final_state (run_tests E cfg k p idx (t # ts) st))
         = launched st @ map (\<lambda>(i, t). command E cfg p t (base_seed + int i)) (take j (enumerate idx (t # ts)))"
      by (intro exI [of _ "Suc j"]) simp
    from c1 c2 Inr have c: "consistent st \<longrightarrow> consistent (final_state (run_tests E cfg k p idx (t # ts) st))"
      unfolding r by simp
    from a b c show ?thesis by blast
  qed
qed

lemma grade_student_any:
  "consistent st \<Longrightarrow> consistent (final_state (grade_student E cfg rootdir tests sd st))"
proof (cases "locate (grader cfg) (join rootdir (fst sd)) (snd sd)")
  case None
  assume c: "consistent st"
  from grade_student_missing [OF None, of E tests st] obtain st' where
    g: "grade_student E cfg rootdir tests sd st = Inr st'" by auto
  from grade_student_frame [OF g] c show ?thesis by (simp add: g)
next
  case (Some p)
  assume c: "consistent st"
  have "grade_student E cfg rootdir tests sd st =
      run_tests E cfg (fst sd) p 0 tests (st\<lparr>summary := setdefault (fst sd) new_summary (summary st)\<rparr>)"
    using Some by (simp add: grade_student_def Let_def)
  with run_tests_any [of "fst sd" "st\<lparr>summary := setdefault (fst sd) new_summary (summary st)\<rparr>" E cfg p 0 tests]
    consistent_setdefault [OF c, of "fst sd"]
  show ?thesis by simp
qed

lemma grade_students_any:
  "consistent st \<Longrightarrow> consistent (final_state (grade_students E cfg rootdir tests sds st))"
proof (induction sds arbitrary: st)
  case Nil
  then show ?case by simp
next
  case (Cons sd sds)
  show ?case
  proof (cases "grade_student E cfg rootdir tests sd st")
    case (Inl x)
    obtain e st' where "x = (e, st')" by (cases x)
    with Inl grade_student_any [OF Cons.prems, of E cfg rootdir tests sd] show ?thesis by simp
  next
    case (Inr st1)
    with grade_student_any [OF Cons.prems, of E cfg rootdir tests sd] have "consistent st1" by simp
    from Cons.IH [OF this] Inr show ?thesis by simp
  qed
qed

text \<open>A run that returns has written one row for every student and test, in order.\<close>

lemma run_tests_rows:
  "run_tests E cfg k p idx ts st = Inr st' \<Longrightarrow>
   map (\<lambda>r. (row_student r, row_test r)) (results st')
     = map (\<lambda>r. (row_student r, row_test r)) (results st) @ map (\<lambda>t. (k, tname t)) ts"
proof (induction ts arbitrary: idx st)
  case Nil
  then show ?case by simp
next
  case (Cons t ts)
  from Cons.prems obtain st1 where 1: "run_test E cfg k p idx t st = Inr st1"
    and 2: "run_tests E cfg k p (Suc idx) ts st1 = Inr st'"
    by (auto simp: ebind_Inr)
  from run_test_recorded [OF 1] obtain r where
    "results st1 = results st @ [r]" "row_student r = k" "row_test r = tname t"
    by (auto simp: recorded_def)
  with Cons.IH [OF 2] show ?case by simp
qed

lemma grade_student_rows:
  assumes "grade_student E cfg rootdir tests sd st = Inr st'"
  shows "map (\<lambda>r. (row_student r, row_test r)) (results st')
     = map (\<lambda>r. (row_student r, row_test r)) (results st) @ map (\<lambda>t. (fst sd, tname t)) tests"
proof (cases "locate (grader cfg) (join rootdir (fst sd)) (snd sd)")
  case None
  from grade_student_missing [OF None, of E tests st] assms
  show ?thesis by (auto simp: comp_def)
next
  case (Some p)
  with assms have "run_tests E cfg (fst sd) p 0 tests
      (st\<lparr>summary := setdefault (fst sd) new_summary (summary st)\<rparr>) = Inr st'"
    by (simp add: grade_student_def Let_def)
  from run_tests_rows [OF this] show ?thesis by simp
qed

lemma grade_students_rows:
  "grade_students E cfg rootdir tests sds st = Inr st' \<Longrightarrow>
   map (\<lambda>r. (row_student r, row_test r)) (results st')
     = map (\<lambda>r. (row_student r, row_test r)) (results st)
       @ concat (map (\<lambda>sd. map (\<lambda>t. (fst sd, tname t)) tests) sds)"
proof (induction sds arbitrary: st)
  case Nil
  then show ?case by simp
next
  case (Cons sd sds)
  from Cons.prems obtain st1 where 1: "grade_student E cfg rootdir tests sd st = Inr st1"
    and 2: "grade_students E cfg rootdir tests sds st1 = Inr st'"
    by (auto simp: ebind_Inr)
  from grade_student_rows [OF 1] Cons.IH [OF 2] show ?case by simp
qed

lemma grade_rows_one_per_pair:
  "grade E cfg rootdir tests students = Inr final \<Longrightarrow>
   map (\<lambda>r. (row_student r, row_test r)) (results final)
     = concat (map (\<lambda>sd. map (\<lambda>t. (fst sd, tname t)) tests) students)"
  using grade_students_rows [of E cfg rootdir tests students initial_state final]
  by (simp add: grade_def initial_state_def)


section \<open>The claims\<close>

text \<open>
  C8. A child that exits with a non-zero code after writing a valid result (a dict with
  a boolean \<open>ok\<close>, a string \<open>message\<close> and at most a string \<open>error\<close>): the row's
  \<open>passed\<close> cell is the decoded \<open>ok\<close>, and the exit code is appended to the message
  (after the error text, before the text of the error channel).
\<close>

theorem nonzero_exit_keeps_parsed_ok:
  assumes "map_of (summary st) k = Some v"
    and "subprocess_run E (length (launched st)) (command E cfg p t (base_seed + int idx))
           = Completed stdout stderr rc"
    and "strip stdout \<noteq> []"
    and "json_loads E (strip stdout) = Inr (JObj kvs)"
    and "map_of kvs ''ok'' = Some (JBool b)"
    and "map_of kvs ''message'' = Some (JStr m)"
    and "map_of kvs ''error'' = None \<and> e = [] \<or> map_of kvs ''error'' = Some (JStr e)"
    and "rc \<noteq> 0"
  shows "\<exists>st'. run_test E cfg k p idx t st = Inr st' \<and>
     results st' = results st @
       [\<lparr>row_student = k, row_test = tname t, row_passed = (if b then 1 else 0),
         row_message = JStr (m @ (if e \<noteq> [] then ''\<newline>\<newline>ERROR:\<newline>'' @ e else [])
           @ ''\<newline>\<newline>(subprocess exit code: '' @ str_int rc @ '')''
           @ (if strip stderr \<noteq> [] \<and> e = [] then ''\<newline>\<newline>STDERR:\<newline>'' @ strip stderr else []))\<rparr>]"
proof -
  let ?st1 = "st\<lparr>launched := launched st @ [command E cfg p t (base_seed + int idx)]\<rparr>"
  have v: "map_of (summary ?st1) k = Some v" using assms(1) by simp
  have p: "parse_output E (strip stdout) (strip stderr) = Inr (JObj kvs)"
    using assms(3,4) by (rule parse_output_decoded)
  have m: "(case map_of kvs ''message'' of Some x \<Rightarrow> x | None \<Rightarrow> JStr []) = JStr m"
    using assms(6) by simp
  have e: "(case map_of kvs ''error'' of Some x \<Rightarrow> x | None \<Rightarrow> JStr []) = JStr e"
    using assms(7) by auto
  have ok: "b = truthy (case map_of kvs ''ok'' of Some x \<Rightarrow> x | None \<Rightarrow> JBool False)"
    using assms(5) by simp
  from record_completed_str [OF v p m e ok, of "grader cfg" "tname t" rc] assms(8)
  show ?thesis unfolding run_test_Completed [OF assms(2)] by auto
qed

theorem nonzero_exit_keeps_parsed_ok_witness:
  "\<exists>st'. run_test (example_env (Completed passing_output ''boom'' 1)
                    (Inr (JObj [(''ok'', JBool True), (''message'', JStr ''fine'')])))
            example_config ''alice'' ''/subs/alice/pa3.py'' 0 example_test example_state = Inr st' \<and>
     results st' =
       [\<lparr>row_student = ''alice'', row_test = ''test_1.py'', row_passed = 1,
         row_message = JStr (''fine'' @ ''\<newline>\<newline>(subprocess exit code: 1)''
                               @ ''\<newline>\<newline>STDERR:\<newline>boom'')\<rparr>]"
proof -
  have "passing_output \<noteq> []" by (simp add: passing_output_def)
  then show ?thesis
    using nonzero_exit_keeps_parsed_ok [of example_state "''alice''" new_summary
      "example_env (Completed passing_output ''boom'' 1) (Inr (JObj [(''ok'', JBool True), (''message'', JStr ''fine'')]))"
      example_config "''/subs/alice/pa3.py''" example_test 0 passing_output "''boom''" 1
      "[(''ok'', JBool True), (''message'', JStr ''fine'')]" True "''fine''" "[]"]
    by (simp add: example_state_def example_env_def example_test_def str_int_def str_nat.simps digit_char_def)
qed

text \<open>
  C9. A test module without \<open>TestCase\<close>, in a run that gets as far as the test: \<open>sys.argv\<close>
  has six entries and \<open>int\<close> accepts the seed, both paths exist, both modules load, and
  the loaded code has left the runner's \<open>print\<close> and \<open>random.seed\<close> working. Then the
  runner prints one failing value and returns; nothing is invoked, no fault leaves
  \<open>main\<close>, and apart from what the loaded code wrote itself that value is all that
  reaches the standard output. The message is the one of every fault in the test's \<open>try\<close>
  block, \<open>Exception during TestCase() execution\<close>; the missing entry point is named in
  the error detail only.
\<close>

theorem missing_entry_point_reported:
  assumes "6 \<le> length argv"
    and "py_int_max (int_max_str_digits R) (argv ! 5) = Some seed"
    and "path_exists R (argv ! 1)"
    and "path_exists R (argv ! 4)"
    and "outcome (load_module_from_path R (student_module a) (argv ! 1)) = Returns student_mod"
    and "outcome (load_module_from_path R (stem R (argv ! 4)) (argv ! 4)) = Returns test_mod"
    and "intact (after_call (after_call untouched (load_module_from_path R (student_module a) (argv ! 1)))
                   (load_module_from_path R (stem R (argv ! 4)) (argv ! 4)))"
    and "TestCase test_mod = None"
  shows "printed (fst (runner_main a R argv)) =
           [JObj [(''ok'', JBool False),
                  (''message'', JStr ''Exception during TestCase() execution''),
                  (''error'', JStr (format_exc R AttributeError ''TestCase() function not found in test file''))]]
         \<and> on_stdout (fst (runner_main a R argv)) =
             written (wrote (load_module_from_path R (student_module a) (argv ! 1)))
             @ written (wrote (load_module_from_path R (stem R (argv ! 4)) (argv ! 4)))
             @ [Print (JObj [(''ok'', JBool False),
                  (''message'', JStr ''Exception during TestCase() execution''),
                  (''error'', JStr (format_exc R AttributeError ''TestCase() function not found in test file''))])]
         \<and> snd (runner_main a R argv) = Returned
         \<and> Invoke \<notin> set (fst (runner_main a R argv))"
proof -
  let ?s = "load_module_from_path R (student_module a) (argv ! 1)"
  let ?t = "load_module_from_path R (stem R (argv ! 4)) (argv ! 4)"
  let ?v = "failure ''Exception during TestCase() execution''
              (format_exc R AttributeError ''TestCase() function not found in test file'')"
  let ?paths = "(if argv ! 2 \<noteq> [] \<and> path_exists R (argv ! 2) then [SysPathInsert (argv ! 2)] else [])
      @ (if argv ! 3 \<noteq> [] \<and> path_exists R (argv ! 3) then [SysPathInsert (argv ! 3)] else [])"
  from assms(7) have sf: "seed_fault (after_call (after_call untouched ?s) ?t) = None"
    by (simp add: intact_def)
  have run: "runner_main a R argv
               = (?paths @ written (wrote ?s) @ written (wrote ?t) @ [RandomSeed seed, Print ?v], Returned)"
    using assms(1-6,8) sf emit_intact [OF assms(7)]
    by (simp add: runner_main_def Let_def after_def run_TestCase_def)
  have w: "printed (written x) = []" "on_stdout (written x) = written x"
    "Invoke \<notin> set (written x)" for x
    by (simp_all add: written_def on_stdout_def)
  have p: "printed ?paths = []" "on_stdout ?paths = []" "Invoke \<notin> set ?paths"
    by (simp_all add: on_stdout_def)
  show ?thesis
    unfolding run fst_conv snd_conv printed_append on_stdout_append
    using w p by (simp add: failure_def on_stdout_simps)
qed

theorem missing_entry_point_reported_witness:
  "printed (fst (runner_main PA3 (example_renv (plain (Returns passing_test)) (plain (Returns no_entry_point)))
                   example_argv)) =
     [JObj [(''ok'', JBool False),
            (''message'', JStr ''Exception during TestCase() execution''),
            (''error'', JStr ''TestCase() function not found in test file'')]]
   \<and> snd (runner_main PA3 (example_renv (plain (Returns passing_test)) (plain (Returns no_entry_point)))
             example_argv) = Returned"
proof -
  have seed: "py_int_max 4300 (example_argv ! 5) = Some 1337"
    by (simp add: example_argv_def py_int_max_def count_digits_def py_int_def int_strip_def
        int_space_def is_digit_def digit_val_def)
  show ?thesis
    using missing_entry_point_reported [where argv = example_argv and seed = 1337
        and R = "example_renv (plain (Returns passing_test)) (plain (Returns no_entry_point))"
        and a = PA3 and student_mod = passing_test and test_mod = no_entry_point]
      seed
    by (simp add: example_argv_def example_renv_def load_module_from_path_def no_entry_point_def
        plain_def after_call_def intact_def untouched_def)
qed

theorem missing_entry_point_message_counterexample:
  "printed (fst (runner_main PA3 (example_renv (plain (Returns passing_test)) (plain (Returns no_entry_point)))
                   example_argv)) =
     [JObj [(''ok'', JBool False),
            (''message'', JStr ''Exception during TestCase() execution''),
            (''error'', JStr ''TestCase() function not found in test file'')]]
   \<and> ''Exception during TestCase() execution'' \<noteq> ''entry point not found''"
  by (simp add: runner_main_def Let_def after_def run_TestCase_def emit_def failure_def printed_append
      example_argv_def example_renv_def load_module_from_path_def no_entry_point_def
      plain_def after_call_def untouched_def
      py_int_max_def count_digits_def py_int_def int_strip_def int_space_def is_digit_def digit_val_def)




text \<open>
  C5. A child that runs into the timeout (\<open>subprocess.run\<close> raises \<open>TimeoutExpired\<close>, having
  killed the child): the row has \<open>passed = 0\<close> and the message
  \<open>Test timed out after <timeout> seconds\<close>, the result is counted in \<open>total\<close> and
  \<open>failed\<close>, and the loop goes on with the next test. A row has no cell for a
  timed-out flag.
\<close>

theorem timeout_recorded_and_loop_proceeds:
  assumes "map_of (summary st) k = Some v"
    and "subprocess_run E (length (launched st)) (command E cfg p t (base_seed + int idx)) = TimeoutExpired"
  shows "\<exists>st'. run_test E cfg k p idx t st = Inr st'
     \<and> results st' = results st @
          [\<lparr>row_student = k, row_test = tname t, row_passed = 0,
            row_message = JStr (''Test timed out after '' @ timeout_text cfg @ '' seconds'')\<rparr>]
     \<and> map_of (summary st') = (map_of (summary st))(k \<mapsto> v\<lparr>total := total v + 1, failed := failed v + 1\<rparr>)
     \<and> run_tests E cfg k p idx (t # ts) st = run_tests E cfg k p (Suc idx) ts st'"
proof -
  let ?st1 = "st\<lparr>launched := launched st @ [command E cfg p t (base_seed + int idx)]\<rparr>"
  have "map_of (summary ?st1) k = Some v" using assms(1) by simp
  from record_timeout_Inr [OF this, of cfg "tname t"] obtain st' where
    "record_timeout cfg k (tname t) ?st1 = Inr st'"
    "results st' = results st @ [\<lparr>row_student = k, row_test = tname t, row_passed = 0,
                                  row_message = JStr (timeout_message cfg)\<rparr>]"
    "map_of (summary st') = (map_of (summary st))(k \<mapsto> v\<lparr>total := total v + 1, failed := failed v + 1\<rparr>)"
    by auto
  then show ?thesis
    unfolding run_tests.simps run_test_TimeoutExpired [OF assms(2)]
    by (simp add: timeout_message_def)
qed

theorem timeout_recorded_and_loop_proceeds_witness:
  "\<exists>st'. run_test (example_env TimeoutExpired (Inl JSONDecodeError)) example_config
             ''alice'' ''/subs/alice/pa3.py'' 0 example_test example_state = Inr st'
     \<and> results st' =
          [\<lparr>row_student = ''alice'', row_test = ''test_1.py'', row_passed = 0,
            row_message = JStr ''Test timed out after 20.0 seconds''\<rparr>]
     \<and> map_of (summary st') ''alice'' = Some \<lparr>total = 1, passed = 0, failed = 1, missing = 0\<rparr>"
  using timeout_recorded_and_loop_proceeds [of example_state "''alice''" new_summary
      "example_env TimeoutExpired (Inl JSONDecodeError)" example_config "''/subs/alice/pa3.py''"
      example_test 0 "[]"]
  by (auto simp: example_state_def example_env_def example_test_def example_config_def new_summary_def)

theorem timeout_message_counterexample:
  "run_test (example_env TimeoutExpired (Inl JSONDecodeError)) example_config
      ''alice'' ''/subs/alice/pa3.py'' 0 example_test example_state =
     Inr \<lparr>summary = [(''alice'', \<lparr>total = 1, passed = 0, failed = 1, missing = 0\<rparr>)],
          results = [\<lparr>row_student = ''alice'', row_test = ''test_1.py'', row_passed = 0,
                      row_message = JStr ''Test timed out after 20.0 seconds''\<rparr>],
          launched = [[''python3'', ''/tmp/g/runner.py'', ''/subs/alice/pa3.py'', ''/tests'', ''/tests'',
                       ''/tests/test_1.py'', ''1337'']]\<rparr>
   \<and> ''Test timed out after 20.0 seconds'' \<noteq> ''timed out after 20.0s''"
  by (simp add: run_test_def Let_def record_timeout_def update_summary_def writerow_def
      timeout_message_def command_def base_seed_def str_int_def str_nat.simps digit_char_def
      example_state_def example_env_def example_test_def example_config_def new_summary_def)

text \<open>
  C3. Output that cannot be decoded. Empty output (after \<open>strip\<close>): a failing row whose
  message is the exit-code note, if any, followed by the whole stripped text of the
  error channel, if any. Output on which \<open>json.loads\<close> raises \<open>JSONDecodeError\<close>: a
  failing row whose message is \<open>Invalid JSON output\<close> followed by the first 500 characters
  of the stripped output and the first 500 characters of the stripped error text, and the
  exit-code note, if any.
\<close>

theorem undecodable_output_recorded:
  assumes "map_of (summary st) k = Some v"
    and "subprocess_run E (length (launched st)) (command E cfg p t (base_seed + int idx))
           = Completed stdout stderr rc"
    and "strip stdout = [] \<or> json_loads E (strip stdout) = Inl JSONDecodeError"
  shows "\<exists>st'. run_test E cfg k p idx t st = Inr st' \<and>
     results st' = results st @
       [\<lparr>row_student = k, row_test = tname t, row_passed = 0,
         row_message = JStr
           ((if strip stdout = [] then []
             else ''Invalid JSON output'' @ ''\<newline>\<newline>ERROR:\<newline>'' @ ''STDOUT: '' @ take 500 (strip stdout)
                  @ ''\<newline>STDERR: '' @ take 500 (strip stderr))
            @ (if rc \<noteq> 0 then ''\<newline>\<newline>(subprocess exit code: '' @ str_int rc @ '')'' else [])
            @ (if strip stdout = [] \<and> strip stderr \<noteq> [] then ''\<newline>\<newline>STDERR:\<newline>'' @ strip stderr else []))\<rparr>]
     \<and> map_of (summary st') = (map_of (summary st))(k \<mapsto> v\<lparr>total := total v + 1, failed := failed v + 1\<rparr>)"
proof -
  let ?st1 = "st\<lparr>launched := launched st @ [command E cfg p t (base_seed + int idx)]\<rparr>"
  have v: "map_of (summary ?st1) k = Some v" using assms(1) by simp
  show ?thesis
  proof (cases "strip stdout = []")
    case True
    have p: "parse_output E (strip stdout) (strip stderr) = Inr (JObj [])"
      using True by (simp add: parse_output_empty)
    from record_completed_str [OF v p, of "[]" "[]" False "grader cfg" "tname t" rc] True
    show ?thesis unfolding run_test_Completed [OF assms(2)] by auto
  next
    case False
    with assms(3) have "json_loads E (strip stdout) = Inl JSONDecodeError" by simp
    from parse_output_invalid [OF False this, of "strip stderr"]
    have p: "parse_output E (strip stdout) (strip stderr) =
       Inr (JObj [(''ok'', JBool False), (''message'', JStr ''Invalid JSON output''),
                  (''error'', JStr (''STDOUT: '' @ take 500 (strip stdout) @ ''\<newline>STDERR: ''
                                     @ take 500 (strip stderr)))])" .
    from record_completed_str [OF v p, of "''Invalid JSON output''"
        "''STDOUT: '' @ take 500 (strip stdout) @ ''\<newline>STDERR: '' @ take 500 (strip stderr)"
        False "grader cfg" "tname t" rc] False
    show ?thesis unfolding run_test_Completed [OF assms(2)] by auto
  qed
qed

theorem undecodable_output_recorded_witness:
  "\<exists>st'. run_test (example_env (Completed ''boom'' ''boom'' 0) (Inl JSONDecodeError)) example_config
             ''alice'' ''/subs/alice/pa3.py'' 0 example_test example_state = Inr st'
     \<and> results st' =
          [\<lparr>row_student = ''alice'', row_test = ''test_1.py'', row_passed = 0,
            row_message = JStr (''Invalid JSON output'' @ ''\<newline>\<newline>ERROR:\<newline>''
                                  @ ''STDOUT: boom'' @ ''\<newline>STDERR: boom'')\<rparr>]"
  using undecodable_output_recorded [of example_state "''alice''" new_summary
      "example_env (Completed ''boom'' ''boom'' 0) (Inl JSONDecodeError)" example_config
      "''/subs/alice/pa3.py''" example_test 0 "''boom''" "''boom''" 0]
  by (auto simp: example_state_def example_env_def example_test_def)

theorem truncated_detail_counterexample:
  "run_test (example_env (Completed (replicate 2000 (CHR ''x'')) [] 0) (Inl JSONDecodeError)) example_config
      ''alice'' ''/subs/alice/pa3.py'' 0 example_test example_state =
     Inr \<lparr>summary = [(''alice'', \<lparr>total = 1, passed = 0, failed = 1, missing = 0\<rparr>)],
          results = [\<lparr>row_student = ''alice'', row_test = ''test_1.py'', row_passed = 0,
                      row_message = JStr (''Invalid JSON output'' @ ''\<newline>\<newline>ERROR:\<newline>''
                        @ ''STDOUT: '' @ replicate 500 (CHR ''x'') @ ''\<newline>STDERR: '')\<rparr>],
          launched = [[''python3'', ''/tmp/g/runner.py'', ''/subs/alice/pa3.py'', ''/tests'', ''/tests'',
                       ''/tests/test_1.py'', ''1337'']]\<rparr>
   \<and> length (''Invalid JSON output'' @ ''\<newline>\<newline>ERROR:\<newline>''
                        @ ''STDOUT: '' @ replicate 500 (CHR ''x'') @ ''\<newline>STDERR: '')
       < length (replicate 2000 (CHR ''x''))"
proof -
  have s: "strip (replicate 2000 (CHR ''x'')) = replicate 2000 (CHR ''x'')"
    by (rule strip_replicate) (simp add: isspace_def)
  have n: "replicate 2000 (CHR ''x'') \<noteq> []" by simp
  show ?thesis
    using n
    by (simp add: run_test_def Let_def record_completed_def parse_output_def dict_get_def
        build_message_def iadd_str_def fmt_def log_failure_def log_short_def
        update_summary_def writerow_def s rsa_tests_def
        command_def base_seed_def str_int_def str_nat.simps digit_char_def
        example_state_def example_env_def example_test_def example_config_def new_summary_def)
qed

text \<open>
  C1. A child whose output decodes to a JSON value that is not a dict (a list, a
  number, a string, \<open>null\<close>): \<open>data.get\<close> raises \<open>AttributeError\<close>, nothing catches it, and
  the whole run ends with that exception; the command was given to \<open>subprocess.run\<close>
  and no row was written.
\<close>

theorem grade_raises_on_non_dict_output:
  assumes "locate (grader cfg) (join rootdir k) entries = Some p"
    and "subprocess_run E 0 (command E cfg p t base_seed) = Completed stdout stderr rc"
    and "strip stdout \<noteq> []"
    and "json_loads E (strip stdout) = Inr data"
    and "\<not> is_dict data"
  shows "grade E cfg rootdir (t # ts) ((k, entries) # rest) =
           Inl (AttributeError,
                \<lparr>summary = [(k, new_summary)], results = [], launched = [command E cfg p t base_seed]\<rparr>)"
proof -
  have p: "parse_output E (strip stdout) (strip stderr) = Inr data"
    using assms(3,4) by (rule parse_output_decoded)
  have g: "dict_get data ''ok'' (JBool False) = Inl AttributeError"
    using assms(5) by (cases data) (simp_all add: dict_get_def)
  have "record_completed E a k name stdout stderr rc st = Inl (AttributeError, st)" for a name st
    by (simp add: record_completed_def Let_def p g)
  then show ?thesis
    using assms(1,2)
    by (simp add: grade_def grade_student_def Let_def initial_state_def run_test_def setdefault_def)
qed

theorem grade_raises_on_non_dict_output_witness:
  "grade (example_env (Completed ''[]'' [] 0) (Inr (JArr []))) example_config ''/subs''
     [example_test] [(''alice'', [File ''pa3.py''])] =
     Inl (AttributeError,
          \<lparr>summary = [(''alice'', \<lparr>total = 0, passed = 0, failed = 0, missing = 0\<rparr>)], results = [],
           launched = [[''python3'', ''/tmp/g/runner.py'', ''/subs/alice/pa3.py'', ''/tests'', ''/tests'',
                        ''/tests/test_1.py'', ''1337'']]\<rparr>)"
  using grade_raises_on_non_dict_output [of example_config "''/subs''" "''alice''" "[File ''pa3.py'']"
      "''/subs/alice/pa3.py''" "example_env (Completed ''[]'' [] 0) (Inr (JArr []))" example_test
      "''[]''" "[]" 0 "JArr []" "[]" "[]"]
  by (simp add: example_config_def example_env_def example_test_def locate_def join_def new_summary_def
      command_def base_seed_def str_int_def str_nat.simps digit_char_def)




text \<open>
  C4. A student whose module is not found: whatever the state, grading the student
  succeeds, launches no child, and appends one failing row per test; and when the run
  completes, with student directories of distinct names, that student's summary is
  \<open>total = failed =\<close> the number of tests, \<open>passed = 0\<close> and the missing flag \<open>1\<close>, and the
  student's rows in the results are exactly those rows.
\<close>

theorem missing_module_short_circuit:
  assumes "locate (grader cfg) (join rootdir k) entries = None"
  shows "(\<exists>st'. grade_student E cfg rootdir tests (k, entries) st = Inr st'
           \<and> launched st' = launched st
           \<and> results st' = results st @
                map (\<lambda>t. \<lparr>row_student = k, row_test = tname t, row_passed = 0,
                           row_message = JStr (target (grader cfg) @ '' not found'')\<rparr>) tests)
     \<and> (grade E cfg rootdir tests students = Inr final \<and> distinct (map fst students)
          \<and> (k, entries) \<in> set students \<longrightarrow>
          map_of (summary final) k =
            Some \<lparr>total = int (length tests), passed = 0, failed = int (length tests), missing = 1\<rparr>
          \<and> filter (\<lambda>r. row_student r = k) (results final) =
                map (\<lambda>t. \<lparr>row_student = k, row_test = tname t, row_passed = 0,
                           row_message = JStr (target (grader cfg) @ '' not found'')\<rparr>) tests)"
proof
  from grade_student_missing [OF assms, of E tests st]
  show "\<exists>st'. grade_student E cfg rootdir tests (k, entries) st = Inr st'
           \<and> launched st' = launched st
           \<and> results st' = results st @
                map (\<lambda>t. \<lparr>row_student = k, row_test = tname t, row_passed = 0,
                           row_message = JStr (target (grader cfg) @ '' not found'')\<rparr>) tests"
    by (auto simp: not_found_message_def)
next
  let ?rows = "map (\<lambda>t. \<lparr>row_student = k, row_test = tname t, row_passed = 0,
                           row_message = JStr (target (grader cfg) @ '' not found'')\<rparr>) tests"
  show "grade E cfg rootdir tests students = Inr final \<and> distinct (map fst students)
          \<and> (k, entries) \<in> set students \<longrightarrow>
          map_of (summary final) k =
            Some \<lparr>total = int (length tests), passed = 0, failed = int (length tests), missing = 1\<rparr>
          \<and> filter (\<lambda>r. row_student r = k) (results final) = ?rows"
  proof
    assume a: "grade E cfg rootdir tests students = Inr final \<and> distinct (map fst students)
          \<and> (k, entries) \<in> set students"
    then obtain pre post where sp: "students = pre @ (k, entries) # post"
      by (auto dest: split_list)
    with a have npre: "k \<notin> fst ` set pre" and npost: "k \<notin> fst ` set post" by auto
    from a sp obtain st1 st2 where
      1: "grade_students E cfg rootdir tests pre initial_state = Inr st1"
      and 2: "grade_student E cfg rootdir tests (k, entries) st1 = Inr st2"
      and 3: "grade_students E cfg rootdir tests post st2 = Inr final"
      by (auto simp: grade_def grade_students_append ebind_Inr)
    from grade_students_frame [OF 1] npre have
      m1: "map_of (summary st1) k = None"
      and f1: "filter (\<lambda>r. row_student r = k) (results st1) = []"
      by (auto simp: initial_state_def)
    from grade_student_missing [OF assms, of E tests st1] 2 have
      r2: "results st2 = results st1 @ map (\<lambda>t. \<lparr>row_student = k, row_test = tname t, row_passed = 0,
                         row_message = JStr (not_found_message (grader cfg))\<rparr>) tests"
      and m2: "map_of (summary st2) k =
          Some (new_summary\<lparr>total := total new_summary + int (length tests),
                            failed := failed new_summary + int (length tests), missing := 1\<rparr>)"
      by (auto simp: m1)
    from grade_students_frame [OF 3] npost have
      m3: "map_of (summary final) k = map_of (summary st2) k"
      and f3: "filter (\<lambda>r. row_student r = k) (results final) = filter (\<lambda>r. row_student r = k) (results st2)"
      by auto
    have "filter (\<lambda>r. row_student r = k) ?rows = ?rows"
      by (induction tests) simp_all
    with r2 f1 f3 have "filter (\<lambda>r. row_student r = k) (results final) = ?rows"
      by (simp add: not_found_message_def)
    moreover from m2 m3 have "map_of (summary final) k =
        Some \<lparr>total = int (length tests), passed = 0, failed = int (length tests), missing = 1\<rparr>"
      by (simp add: new_summary_def)
    ultimately show "map_of (summary final) k =
            Some \<lparr>total = int (length tests), passed = 0, failed = int (length tests), missing = 1\<rparr>
          \<and> filter (\<lambda>r. row_student r = k) (results final) = ?rows" by simp
  qed
qed

theorem missing_module_short_circuit_witness:
  "locate PA3 (join ''/subs'' ''bob'') [File ''readme.txt''] = None
   \<and> grade (example_env TimeoutExpired (Inl JSONDecodeError)) example_config ''/subs'' [example_test]
        [(''bob'', [File ''readme.txt''])]
       = Inr \<lparr>summary = [(''bob'', \<lparr>total = 1, passed = 0, failed = 1, missing = 1\<rparr>)],
              results = [\<lparr>row_student = ''bob'', row_test = ''test_1.py'', row_passed = 0,
                          row_message = JStr ''pa3.py not found''\<rparr>],
              launched = []\<rparr>
   \<and> map_of [(''bob'', \<lparr>total = 1, passed = 0, failed = 1, missing = 1\<rparr>)] ''bob''
       = Some \<lparr>total = int (length [example_test]), passed = 0, failed = int (length [example_test]),
               missing = 1\<rparr>"
proof -
  have l: "locate (grader example_config) (join ''/subs'' ''bob'') [File ''readme.txt''] = None"
    by (simp add: example_config_def locate_def walk_def dirnames_def filenames_def join_def)
  have g: "grade (example_env TimeoutExpired (Inl JSONDecodeError)) example_config ''/subs'' [example_test]
        [(''bob'', [File ''readme.txt''])]
       = Inr \<lparr>summary = [(''bob'', \<lparr>total = 1, passed = 0, failed = 1, missing = 1\<rparr>)],
              results = [\<lparr>row_student = ''bob'', row_test = ''test_1.py'', row_passed = 0,
                          row_message = JStr ''pa3.py not found''\<rparr>],
              launched = []\<rparr>"
    using l
    by (simp add: grade_def grade_student_def Let_def initial_state_def setdefault_def new_summary_def
        update_summary_def writerow_def not_found_message_def example_config_def example_test_def)
  from missing_module_short_circuit [OF l, of "example_env TimeoutExpired (Inl JSONDecodeError)"
      "[example_test]" initial_state "[(''bob'', [File ''readme.txt''])]"
      "\<lparr>summary = [(''bob'', \<lparr>total = 1, passed = 0, failed = 1, missing = 1\<rparr>)],
              results = [\<lparr>row_student = ''bob'', row_test = ''test_1.py'', row_passed = 0,
                          row_message = JStr ''pa3.py not found''\<rparr>],
              launched = []\<rparr>"] g
  have "map_of [(''bob'', \<lparr>total = 1, passed = 0, failed = 1, missing = 1\<rparr>)] ''bob''
       = Some \<lparr>total = int (length [example_test]), passed = 0, failed = int (length [example_test]),
               missing = 1\<rparr>"
    by simp
  with l g show ?thesis by (simp add: example_config_def)
qed

text \<open>
  C6. The commands given to \<open>subprocess.run\<close> for a student whose module was located
  are, however the student's grading ends, those of the first tests in order (of all
  tests, when it returns), with seed \<open>1337 + i\<close> for the test of index \<open>i\<close>; the seed is the
  last argument of the command, as decimal text, whoever the student is; the runner reads
  that integer back from its arguments (whatever the interpreter's limit on digits, for
  a seed below \<open>10 ^ 640\<close>), and whenever it invokes the entry point it has called
  \<open>random.seed\<close> with that integer immediately before, and not earlier.
\<close>

theorem seed_is_base_plus_index:
  "(locate (grader cfg) (join rootdir k) entries = Some p \<longrightarrow>
      (\<exists>j \<le> length tests.
         launched (final_state (grade_student E cfg rootdir tests (k, entries) st))
           = launched st @ map (\<lambda>(i, t). command E cfg p t (1337 + int i)) (take j (enumerate 0 tests)))
      \<and> (grade_student E cfg rootdir tests (k, entries) st = Inr st' \<longrightarrow>
           launched st' = launched st @ map (\<lambda>(i, t). command E cfg p t (1337 + int i)) (enumerate 0 tests)))
   \<and> length (command E cfg p t (1337 + int i)) = 7
   \<and> command E cfg p t (1337 + int i) ! 6 = str_int (1337 + int i)
   \<and> py_int (tl (command E cfg p t (1337 + int i)) ! 5) = Some (1337 + int i)
   \<and> (Invoke \<in> set (fst (runner_main a R (tl (command E cfg p t (1337 + int i))))) \<longrightarrow>
        (\<exists>pre post. fst (runner_main a R (tl (command E cfg p t (1337 + int i))))
                       = pre @ RandomSeed (1337 + int i) # Invoke # post
           \<and> Invoke \<notin> set pre \<and> Invoke \<notin> set post \<and> (\<forall>s. RandomSeed s \<notin> set pre)))
   \<and> (1337 + int i < 10 ^ 640 \<longrightarrow>
        py_int_max (int_max_str_digits R) (tl (command E cfg p t (1337 + int i)) ! 5)
          = Some (1337 + int i))"
proof -
  have s: "py_int (tl (command E cfg p t (1337 + int i)) ! 5) = Some (1337 + int i)"
    by (simp add: command_def py_int_str_int)
  have m: "1337 + int i < 10 ^ 640 \<longrightarrow>
        py_int_max (int_max_str_digits R) (tl (command E cfg p t (1337 + int i)) ! 5)
          = Some (1337 + int i)"
  proof
    assume "1337 + int i < 10 ^ 640"
    then have "\<bar>1337 + int i\<bar> < 10 ^ 640" by simp
    then show "py_int_max (int_max_str_digits R) (tl (command E cfg p t (1337 + int i)) ! 5)
          = Some (1337 + int i)"
      by (simp add: command_def py_int_max_str_int)
  qed
  have l: "locate (grader cfg) (join rootdir k) entries = Some p \<longrightarrow>
      (\<exists>j \<le> length tests.
         launched (final_state (grade_student E cfg rootdir tests (k, entries) st))
           = launched st @ map (\<lambda>(i, t). command E cfg p t (1337 + int i)) (take j (enumerate 0 tests)))
      \<and> (grade_student E cfg rootdir tests (k, entries) st = Inr st' \<longrightarrow>
           launched st' = launched st @ map (\<lambda>(i, t). command E cfg p t (1337 + int i)) (enumerate 0 tests))"
  proof
    assume loc: "locate (grader cfg) (join rootdir k) entries = Some p"
    let ?st0 = "st\<lparr>summary := setdefault k new_summary (summary st)\<rparr>"
    have g: "grade_student E cfg rootdir tests (k, entries) st = run_tests E cfg k p 0 tests ?st0"
      by (simp add: grade_student_def Let_def loc)
    from run_tests_any [of k ?st0 E cfg p 0 tests]
    have a: "\<exists>j \<le> length tests.
         launched (final_state (grade_student E cfg rootdir tests (k, entries) st))
           = launched st @ map (\<lambda>(i, t). command E cfg p t (1337 + int i)) (take j (enumerate 0 tests))"
      unfolding g by (simp add: base_seed_def)
    have b: "grade_student E cfg rootdir tests (k, entries) st = Inr st' \<longrightarrow>
           launched st' = launched st @ map (\<lambda>(i, t). command E cfg p t (1337 + int i)) (enumerate 0 tests)"
      unfolding g using run_tests_touches [of E cfg k p 0 tests ?st0 st']
      by (simp add: base_seed_def)
    from a b show "(\<exists>j \<le> length tests.
         launched (final_state (grade_student E cfg rootdir tests (k, entries) st))
           = launched st @ map (\<lambda>(i, t). command E cfg p t (1337 + int i)) (take j (enumerate 0 tests)))
      \<and> (grade_student E cfg rootdir tests (k, entries) st = Inr st' \<longrightarrow>
           launched st' = launched st @ map (\<lambda>(i, t). command E cfg p t (1337 + int i)) (enumerate 0 tests))"
      by blast
  qed
  from l s m runner_main_seeded [OF s, of a R] show ?thesis
    by (simp add: command_def)
qed

theorem seed_is_base_plus_index_witness:
  "grade_student (example_env TimeoutExpired (Inl JSONDecodeError)) example_config ''/subs'' [example_test]
      (''alice'', [File ''pa3.py'']) initial_state
     = Inr \<lparr>summary = [(''alice'', \<lparr>total = 1, passed = 0, failed = 1, missing = 0\<rparr>)],
            results = [\<lparr>row_student = ''alice'', row_test = ''test_1.py'', row_passed = 0,
                        row_message = JStr ''Test timed out after 20.0 seconds''\<rparr>],
            launched = [[''python3'', ''/tmp/g/runner.py'', ''/subs/alice/pa3.py'', ''/tests'', ''/tests'',
                         ''/tests/test_1.py'', ''1337'']]\<rparr>
   \<and> locate (grader example_config) (join ''/subs'' ''alice'') [File ''pa3.py''] = Some ''/subs/alice/pa3.py''
   \<and> [[''python3'', ''/tmp/g/runner.py'', ''/subs/alice/pa3.py'', ''/tests'', ''/tests'',
         ''/tests/test_1.py'', ''1337'']]
       = map (\<lambda>(i, t). command (example_env TimeoutExpired (Inl JSONDecodeError)) example_config
                ''/subs/alice/pa3.py'' t (1337 + int i)) (enumerate 0 [example_test])
   \<and> Invoke \<in> set (fst (runner_main PA3 (example_renv (plain (Returns passing_test)) (plain (Returns passing_test)))
        [''/tmp/g/runner.py'', ''/subs/alice/pa3.py'', ''/tests'', ''/tests'', ''/tests/test_1.py'', ''1337'']))
   \<and> (\<exists>pre post. fst (runner_main PA3 (example_renv (plain (Returns passing_test)) (plain (Returns passing_test)))
        [''/tmp/g/runner.py'', ''/subs/alice/pa3.py'', ''/tests'', ''/tests'', ''/tests/test_1.py'', ''1337''])
          = pre @ RandomSeed 1337 # Invoke # post)
   \<and> py_int_max 4300 ''1337'' = Some 1337"
proof -
  let ?E = "example_env TimeoutExpired (Inl JSONDecodeError)"
  let ?R = "example_renv (plain (Returns passing_test)) (plain (Returns passing_test))"
  let ?argv = "[''/tmp/g/runner.py'', ''/subs/alice/pa3.py'', ''/tests'', ''/tests'', ''/tests/test_1.py'', ''1337'']"
  let ?st' = "\<lparr>summary = [(''alice'', \<lparr>total = 1, passed = 0, failed = 1, missing = 0\<rparr>)],
            results = [\<lparr>row_student = ''alice'', row_test = ''test_1.py'', row_passed = 0,
                        row_message = JStr ''Test timed out after 20.0 seconds''\<rparr>],
            launched = [[''python3'', ''/tmp/g/runner.py'', ''/subs/alice/pa3.py'', ''/tests'', ''/tests'',
                         ''/tests/test_1.py'', ''1337'']]\<rparr>"
  have c: "tl (command ?E example_config ''/subs/alice/pa3.py'' example_test (1337 + int 0)) = ?argv"
    by (simp add: command_def example_env_def example_config_def example_test_def
        str_int_def str_nat.simps digit_char_def)
  have loc: "locate (grader example_config) (join ''/subs'' ''alice'') [File ''pa3.py''] = Some ''/subs/alice/pa3.py''"
    by (simp add: example_config_def locate_def join_def)
  have g: "grade_student ?E example_config ''/subs'' [example_test] (''alice'', [File ''pa3.py'']) initial_state
     = Inr ?st'"
    using loc
    by (simp add: grade_student_def Let_def initial_state_def setdefault_def new_summary_def
        run_test_def record_timeout_def update_summary_def writerow_def timeout_message_def
        command_def base_seed_def str_int_def str_nat.simps digit_char_def
        example_env_def example_config_def example_test_def)
  have seed: "py_int_max 4300 ''1337'' = Some 1337"
    by (simp add: py_int_max_def count_digits_def py_int_def int_strip_def int_space_def
        is_digit_def digit_val_def)
  have inv: "Invoke \<in> set (fst (runner_main PA3 ?R ?argv))"
    using seed
    by (simp add: runner_main_def Let_def after_def run_TestCase_def emit_def
        example_renv_def load_module_from_path_def passing_test_def
        plain_def after_call_def untouched_def)
  note inst = seed_is_base_plus_index [where E = ?E and cfg = example_config and rootdir = "''/subs''"
      and tests = "[example_test]" and k = "''alice''" and entries = "[File ''pa3.py'']"
      and st = initial_state and st' = ?st' and p = "''/subs/alice/pa3.py''" and t = example_test
      and i = 0 and a = PA3 and R = ?R]
  from inst g loc have "launched ?st' = launched initial_state
      @ map (\<lambda>(i, t). command ?E example_config ''/subs/alice/pa3.py'' t (1337 + int i)) (enumerate 0 [example_test])"
    by blast
  then have l: "[[''python3'', ''/tmp/g/runner.py'', ''/subs/alice/pa3.py'', ''/tests'', ''/tests'',
         ''/tests/test_1.py'', ''1337'']]
       = map (\<lambda>(i, t). command ?E example_config ''/subs/alice/pa3.py'' t (1337 + int i)) (enumerate 0 [example_test])"
    by (simp add: initial_state_def)
  from inst have "Invoke \<in> set (fst (runner_main PA3 ?R ?argv)) \<longrightarrow>
        (\<exists>pre post. fst (runner_main PA3 ?R ?argv) = pre @ RandomSeed 1337 # Invoke # post
           \<and> Invoke \<notin> set pre \<and> Invoke \<notin> set post \<and> (\<forall>s. RandomSeed s \<notin> set pre))"
    unfolding c by simp
  with inv have e: "\<exists>pre post. fst (runner_main PA3 ?R ?argv) = pre @ RandomSeed 1337 # Invoke # post"
    by blast
  have "(1337::int) + int 0 < 10 ^ 640" by simp
  with inst have "py_int_max (int_max_str_digits ?R) (?argv ! 5) = Some (1337 + int 0)"
    unfolding c by blast
  then have "py_int_max 4300 ''1337'' = Some 1337" by (simp add: example_renv_def)
  with g loc l inv e show ?thesis by blast
qed

text \<open>
  C10. Every result the loop records, for a child that completed, for a timeout and
  for a missing module, adds one to \<open>total\<close> and one to exactly one of \<open>passed\<close> and
  \<open>failed\<close>; \<open>total = passed + failed\<close> is kept by every step, however the step ends, and
  holds in every entry of the summary however the run ends. The summary writer computes
  \<open>passed / total * 100\<close>, or \<open>0\<close> when \<open>total\<close> is \<open>0\<close>, so that no division fails: it
  writes, in the order of the students' names, one row per student with the student's
  counts and that percentage; in the rows written for the summary a run leaves behind,
  \<open>total = passed + failed\<close>.
\<close>

theorem summary_counts_consistent:
  "(run_test E cfg k p idx t st = Inr st' \<longrightarrow> recorded k (tname t) st st')
   \<and> (missing_rows a k [t] st = Inr st' \<longrightarrow> recorded k (tname t) st st')
   \<and> (recorded k (tname t) st st' \<and> consistent st \<longrightarrow> consistent st')
   \<and> (consistent st \<longrightarrow> consistent (final_state (run_test E cfg k p idx t st)))
   \<and> (consistent st \<longrightarrow> consistent (final_state (grade_student E cfg rootdir tests sd st)))
   \<and> (\<forall>(n, s) \<in> set (summary (final_state (grade E cfg rootdir tests students))).
         total s = passed s + failed s)
   \<and> percent_passed s =
        Inr (if total s = 0 then 0 else real_of_int (passed s) / real_of_int (total s) * 100)
   \<and> summary_rows st =
        Inr (map (\<lambda>(n, s). \<lparr>sum_student = n, sum_total = total s, sum_passed = passed s,
                             sum_failed = failed s,
                             sum_percent = (if total s = 0 then 0
                                            else real_of_int (passed s) / real_of_int (total s) * 100),
                             sum_missing = missing s\<rparr>)
               (sort_key fst (summary st)))
   \<and> (\<exists>rows. summary_rows (final_state (grade E cfg rootdir tests students)) = Inr rows
          \<and> map sum_student rows
              = sort (map fst (summary (final_state (grade E cfg rootdir tests students))))
          \<and> (\<forall>r \<in> set rows. sum_total r = sum_passed r + sum_failed r))"
proof -
  have 1: "run_test E cfg k p idx t st = Inr st' \<longrightarrow> recorded k (tname t) st st'"
    using run_test_recorded [of E cfg k p idx t st st'] by blast
  have 2: "missing_rows a k [t] st = Inr st' \<longrightarrow> recorded k (tname t) st st'"
    using missing_rows_single [of a k t st st'] by blast
  have 3: "recorded k (tname t) st st' \<and> consistent st \<longrightarrow> consistent st'"
    using consistent_recorded [of st k "tname t" st'] by blast
  have 4: "consistent st \<longrightarrow> consistent (final_state (run_test E cfg k p idx t st))"
    using run_test_any [of k st E cfg p idx t] by blast
  have 5: "consistent st \<longrightarrow> consistent (final_state (grade_student E cfg rootdir tests sd st))"
    using grade_student_any [of st E cfg rootdir tests sd] by blast
  have "consistent (final_state (grade E cfg rootdir tests students))"
    unfolding grade_def by (rule grade_students_any [OF consistent_initial])
  then have 6: "\<forall>(n, s) \<in> set (summary (final_state (grade E cfg rootdir tests students))).
         total s = passed s + failed s"
    by (simp add: consistent_def)
  have 7: "summary_rows st =
        Inr (map (\<lambda>(n, s). \<lparr>sum_student = n, sum_total = total s, sum_passed = passed s,
                             sum_failed = failed s,
                             sum_percent = (if total s = 0 then 0
                                            else real_of_int (passed s) / real_of_int (total s) * 100),
                             sum_missing = missing s\<rparr>)
               (sort_key fst (summary st)))"
    by (simp add: summary_rows_def write_summary_eq)
  have 8: "\<exists>rows. summary_rows (final_state (grade E cfg rootdir tests students)) = Inr rows
          \<and> map sum_student rows
              = sort (map fst (summary (final_state (grade E cfg rootdir tests students))))
          \<and> (\<forall>r \<in> set rows. sum_total r = sum_passed r + sum_failed r)"
    using 6 by (rule summary_rows_final)
  from 1 2 3 4 5 6 7 8 percent_passed_eq [of s] show ?thesis by blast
qed

theorem summary_counts_consistent_witness:
  "run_test (example_env TimeoutExpired (Inl JSONDecodeError)) example_config
      ''alice'' ''/subs/alice/pa3.py'' 0 example_test example_state =
     Inr \<lparr>summary = [(''alice'', \<lparr>total = 1, passed = 0, failed = 1, missing = 0\<rparr>)],
          results = [\<lparr>row_student = ''alice'', row_test = ''test_1.py'', row_passed = 0,
                      row_message = JStr ''Test timed out after 20.0 seconds''\<rparr>],
          launched = [[''python3'', ''/tmp/g/runner.py'', ''/subs/alice/pa3.py'', ''/tests'', ''/tests'',
                       ''/tests/test_1.py'', ''1337'']]\<rparr>
   \<and> consistent example_state
   \<and> recorded ''alice'' ''test_1.py'' example_state
        \<lparr>summary = [(''alice'', \<lparr>total = 1, passed = 0, failed = 1, missing = 0\<rparr>)],
          results = [\<lparr>row_student = ''alice'', row_test = ''test_1.py'', row_passed = 0,
                      row_message = JStr ''Test timed out after 20.0 seconds''\<rparr>],
          launched = [[''python3'', ''/tmp/g/runner.py'', ''/subs/alice/pa3.py'', ''/tests'', ''/tests'',
                       ''/tests/test_1.py'', ''1337'']]\<rparr>
   \<and> consistent \<lparr>summary = [(''alice'', \<lparr>total = 1, passed = 0, failed = 1, missing = 0\<rparr>)],
          results = [\<lparr>row_student = ''alice'', row_test = ''test_1.py'', row_passed = 0,
                      row_message = JStr ''Test timed out after 20.0 seconds''\<rparr>],
          launched = [[''python3'', ''/tmp/g/runner.py'', ''/subs/alice/pa3.py'', ''/tests'', ''/tests'',
                       ''/tests/test_1.py'', ''1337'']]\<rparr>
   \<and> missing_rows PA3 ''alice'' [example_test] example_state =
       Inr \<lparr>summary = [(''alice'', \<lparr>total = 1, passed = 0, failed = 1, missing = 0\<rparr>)],
            results = [\<lparr>row_student = ''alice'', row_test = ''test_1.py'', row_passed = 0,
                        row_message = JStr ''pa3.py not found''\<rparr>],
            launched = []\<rparr>
   \<and> recorded ''alice'' ''test_1.py'' example_state
        \<lparr>summary = [(''alice'', \<lparr>total = 1, passed = 0, failed = 1, missing = 0\<rparr>)],
         results = [\<lparr>row_student = ''alice'', row_test = ''test_1.py'', row_passed = 0,
                     row_message = JStr ''pa3.py not found''\<rparr>],
         launched = []\<rparr>
   \<and> percent_passed \<lparr>total = 4, passed = 3, failed = 1, missing = 0\<rparr> = Inr 75
   \<and> percent_passed \<lparr>total = 0, passed = 0, failed = 0, missing = 0\<rparr> = Inr 0
   \<and> summary_rows graded_state =
       Inr [\<lparr>sum_student = ''alice'', sum_total = 0, sum_passed = 0, sum_failed = 0, sum_percent = 0,
              sum_missing = 1\<rparr>,
            \<lparr>sum_student = ''bob'', sum_total = 4, sum_passed = 3, sum_failed = 1, sum_percent = 75,
              sum_missing = 0\<rparr>]"
proof -
  let ?E = "example_env TimeoutExpired (Inl JSONDecodeError)"
  let ?st' = "\<lparr>summary = [(''alice'', \<lparr>total = 1, passed = 0, failed = 1, missing = 0\<rparr>)],
          results = [\<lparr>row_student = ''alice'', row_test = ''test_1.py'', row_passed = 0,
                      row_message = JStr ''Test timed out after 20.0 seconds''\<rparr>],
          launched = [[''python3'', ''/tmp/g/runner.py'', ''/subs/alice/pa3.py'', ''/tests'', ''/tests'',
                       ''/tests/test_1.py'', ''1337'']]\<rparr>"
  let ?stm = "\<lparr>summary = [(''alice'', \<lparr>total = 1, passed = 0, failed = 1, missing = 0\<rparr>)],
            results = [\<lparr>row_student = ''alice'', row_test = ''test_1.py'', row_passed = 0,
                        row_message = JStr ''pa3.py not found''\<rparr>],
            launched = []\<rparr>"
  have r: "run_test ?E example_config ''alice'' ''/subs/alice/pa3.py'' 0 example_test example_state = Inr ?st'"
    by (simp add: run_test_def Let_def record_timeout_def update_summary_def writerow_def
        timeout_message_def command_def base_seed_def str_int_def str_nat.simps digit_char_def
        example_state_def example_env_def example_test_def example_config_def new_summary_def)
  have m: "missing_rows PA3 ''alice'' [example_test] example_state = Inr ?stm"
    by (simp add: update_summary_def writerow_def not_found_message_def
        example_state_def example_test_def new_summary_def)
  have c: "consistent example_state"
    by (simp add: consistent_def example_state_def new_summary_def)
  note timed_out = summary_counts_consistent [where E = ?E and cfg = example_config and k = "''alice''"
      and p = "''/subs/alice/pa3.py''" and idx = 0 and t = example_test and st = example_state
      and st' = ?st' and s = "\<lparr>total = 4, passed = 3, failed = 1, missing = 0\<rparr>"]
  note not_found = summary_counts_consistent [where a = PA3 and k = "''alice''"
      and t = example_test and st = example_state
      and st' = ?stm and s = "\<lparr>total = 0, passed = 0, failed = 0, missing = 0\<rparr>"]
  from timed_out r have rec1: "recorded ''alice'' ''test_1.py'' example_state ?st'"
    by (simp add: example_test_def)
  from timed_out rec1 c have c': "consistent ?st'"
    by (simp add: example_test_def)
  from timed_out have p1: "percent_passed \<lparr>total = 4, passed = 3, failed = 1, missing = 0\<rparr> = Inr 75"
    by simp
  from not_found m have rec2: "recorded ''alice'' ''test_1.py'' example_state ?stm"
    by (simp add: example_test_def)
  from not_found have p0: "percent_passed \<lparr>total = 0, passed = 0, failed = 0, missing = 0\<rparr> = Inr 0"
    by simp
  note rows_out = summary_counts_consistent [where st = graded_state]
  have o: "sort_key fst (summary graded_state)
             = [(''alice'', \<lparr>total = 0, passed = 0, failed = 0, missing = 1\<rparr>),
                (''bob'', \<lparr>total = 4, passed = 3, failed = 1, missing = 0\<rparr>)]"
    by (simp add: graded_state_def less_eq_char_def)
  from rows_out have w: "summary_rows graded_state =
       Inr [\<lparr>sum_student = ''alice'', sum_total = 0, sum_passed = 0, sum_failed = 0, sum_percent = 0,
              sum_missing = 1\<rparr>,
            \<lparr>sum_student = ''bob'', sum_total = 4, sum_passed = 3, sum_failed = 1, sum_percent = 75,
              sum_missing = 0\<rparr>]"
    unfolding o by simp
  from r c rec1 c' m rec2 p1 p0 w show ?thesis by blast
qed


end
